theory Spec2Isabelle
  imports Main "HOL-Library.AList" "HOL-Library.Word"
begin

unbundle bit_operations_syntax

section \<open>The request pipeline of the proxy (proxy/proxy.go)\<close>

text \<open>
  A shallow embedding of the per-request pipeline of \<^verbatim>\<open>proxy/proxy.go\<close>: the access-log
  decision, the header copy of the request mapper, the backend request with its error
  mapping, the pipeline engine \<^verbatim>\<open>do\<close> with its filter runner, circuit-breaker gate and
  retry, the error responder and the response streamer.

  Go's \<^verbatim>\<open>int\<close> is 64 bits wide on the platforms the proxy runs on. Status codes and
  counters are modelled as \<open>int\<close>; where the source multiplies, the wrap-around is
  written out with \<open>wrap64\<close>.
\<close>

subsection \<open>Machine integers\<close>

definition wrap64 :: "int \<Rightarrow> int" where
  "wrap64 x = (x + 2 ^ 63) mod 2 ^ 64 - 2 ^ 63"

subsection \<open>Access-log decision: \<^verbatim>\<open>shouldLog\<close>\<close>

text \<open>
  \<^verbatim>\<open>al.AccessLogFilter\<close> is declared in the package filters/accesslog; the source reads
  its fields \<^verbatim>\<open>Enable\<close> and \<^verbatim>\<open>Prefixes\<close>.
\<close>

record AccessLogFilter =
  Enable :: bool
  Prefixes :: "int list"

text \<open>
  The body of the \<^verbatim>\<open>switch\<close> in \<^verbatim>\<open>shouldLog\<close>: the value assigned to \<^verbatim>\<open>match\<close> for one
  prefix.
\<close>

definition prefixMatch :: "int \<Rightarrow> int \<Rightarrow> bool" where
  "prefixMatch statusCode prefix =
     (if prefix < 10 then
        statusCode \<ge> wrap64 (prefix * 100) \<and> statusCode < wrap64 ((prefix + 1) * 100)
      else if prefix < 100 then
        statusCode \<ge> wrap64 (prefix * 10) \<and> statusCode < wrap64 ((prefix + 1) * 10)
      else statusCode = prefix)"

text \<open>
  The \<^verbatim>\<open>for _, prefix := range filter.Prefixes\<close> loop: \<^verbatim>\<open>match\<close> is threaded through
  the iterations and the loop breaks at the first prefix that matches.
\<close>

fun rangePrefixes :: "int \<Rightarrow> int list \<Rightarrow> bool \<Rightarrow> bool" where
  "rangePrefixes statusCode [] match = match"
| "rangePrefixes statusCode (prefix # rest) match =
     (let match' = prefixMatch statusCode prefix
      in if match' then match' else rangePrefixes statusCode rest match')"

definition shouldLog :: "int \<Rightarrow> AccessLogFilter \<Rightarrow> bool" where
  "shouldLog statusCode flt =
     (if length (Prefixes flt) = 0 then Enable flt
      else rangePrefixes statusCode (Prefixes flt) False = Enable flt)"

subsection \<open>Standard-library functions the source calls\<close>

text \<open>
  \<^verbatim>\<open>http.Header\<close> is a Go map from header names to lists of values. It is modelled as an
  association list with distinct keys; the order of the list stands for the order in
  which \<^verbatim>\<open>range\<close> visits the map, which Go leaves unspecified.
\<close>

type_synonym Header = "(string \<times> string list) list"

text \<open>
  \<^verbatim>\<open>http.CanonicalHeaderKey\<close> (net/textproto): a key that holds a byte that is not a
  token character is returned unchanged; otherwise the first letter and every letter
  after a hyphen are upper-cased and all other letters are lower-cased.
\<close>

definition validHeaderFieldByte :: "char \<Rightarrow> bool" where
  "validHeaderFieldByte c =
     (let n = (of_char c :: nat)
      in (48 \<le> n \<and> n \<le> 57) \<or> (65 \<le> n \<and> n \<le> 90) \<or> (97 \<le> n \<and> n \<le> 122) \<or>
         n \<in> {33, 35, 36, 37, 38, 39, 42, 43, 45, 46, 94, 95, 96, 124, 126})"

definition canonByte :: "bool \<Rightarrow> char \<Rightarrow> char" where
  "canonByte upper c =
     (let n = (of_char c :: nat)
      in if upper \<and> 97 \<le> n \<and> n \<le> 122 then char_of (n - 32)
         else if \<not> upper \<and> 65 \<le> n \<and> n \<le> 90 then char_of (n + 32)
         else c)"

fun canonBytes :: "bool \<Rightarrow> string \<Rightarrow> string" where
  "canonBytes upper [] = []"
| "canonBytes upper (c # cs) =
     (let c' = canonByte upper c in c' # canonBytes (c' = CHR ''-'') cs)"

definition CanonicalHeaderKey :: "string \<Rightarrow> string" where
  "CanonicalHeaderKey s = (if list_all validHeaderFieldByte s then canonBytes True s else s)"

text \<open>\<^verbatim>\<open>Header.Get\<close>, \<^verbatim>\<open>Header.Set\<close> and \<^verbatim>\<open>Header.Add\<close> canonicalise the key they are given.\<close>

definition Header_Get :: "Header \<Rightarrow> string \<Rightarrow> string" where
  "Header_Get h key =
     (case map_of h (CanonicalHeaderKey key) of
        None \<Rightarrow> []
      | Some v \<Rightarrow> (case v of [] \<Rightarrow> [] | x # _ \<Rightarrow> x))"

definition Header_Set :: "Header \<Rightarrow> string \<Rightarrow> string \<Rightarrow> Header" where
  "Header_Set h key v = AList.update (CanonicalHeaderKey key) [v] h"

definition Header_Add :: "Header \<Rightarrow> string \<Rightarrow> string \<Rightarrow> Header" where
  "Header_Add h key v =
     AList.update (CanonicalHeaderKey key)
       ((case map_of h (CanonicalHeaderKey key) of None \<Rightarrow> [] | Some vs \<Rightarrow> vs) @ [v]) h"

text \<open>
  \<^verbatim>\<open>context.Context.Err()\<close>: nil, \<^verbatim>\<open>context.Canceled\<close> or \<^verbatim>\<open>context.DeadlineExceeded\<close>;
  a context type of a third party may report another error.
\<close>

datatype ContextErr = Canceled | DeadlineExceeded | OtherContextErr string

subsection \<open>Header copy: \<^verbatim>\<open>copyHeader\<close>, \<^verbatim>\<open>copyHeaderExcluding\<close>, \<^verbatim>\<open>hopHeaders\<close>\<close>

definition hopHeaders :: "(string \<times> bool) list" where
  "hopHeaders =
     [(''Te'', True),
      (''Connection'', True),
      (''Proxy-Connection'', True),
      (''Keep-Alive'', True),
      (''Proxy-Authenticate'', True),
      (''Proxy-Authorization'', True),
      (''Trailer'', True),
      (''Transfer-Encoding'', True),
      (''Upgrade'', True)]"

text \<open>The \<^verbatim>\<open>for k, v := range from\<close> loops, \<^verbatim>\<open>to\<close> being the map that is written.\<close>

fun copyHeader :: "Header \<Rightarrow> Header \<Rightarrow> Header" where
  "copyHeader to [] = to"
| "copyHeader to ((k, v) # rest) = copyHeader (AList.update (CanonicalHeaderKey k) v to) rest"

fun copyHeaderExcluding :: "Header \<Rightarrow> Header \<Rightarrow> (string \<times> bool) list \<Rightarrow> Header" where
  "copyHeaderExcluding to [] excludeHeaders = to"
| "copyHeaderExcluding to ((k, v) # rest) excludeHeaders =
     (case map_of excludeHeaders k of
        None \<Rightarrow> copyHeaderExcluding (AList.update (CanonicalHeaderKey k) v to) rest excludeHeaders
      | Some _ \<Rightarrow> copyHeaderExcluding to rest excludeHeaders)"

definition cloneHeader :: "Header \<Rightarrow> Header" where
  "cloneHeader h = copyHeader [] h"

definition cloneHeaderExcluding :: "Header \<Rightarrow> (string \<times> bool) list \<Rightarrow> Header" where
  "cloneHeaderExcluding h excludeList = copyHeaderExcluding [] h excludeList"

definition addBranding :: "Header \<Rightarrow> Header" where
  "addBranding headerMap =
     (if Header_Get headerMap ''Server'' = [] then Header_Set headerMap ''Server'' ''Skipper''
      else headerMap)"

subsection \<open>Data model\<close>

text \<open>
  \<^verbatim>\<open>Flags uint\<close> with \<^verbatim>\<open>Insecure Flags = 1 << iota\<close> at \<^verbatim>\<open>iota = 1\<close>.
\<close>

type_synonym Flags = "64 word"

definition Insecure :: Flags where "Insecure = 2"
definition PreserveOriginal :: Flags where "PreserveOriginal = 4"
definition PreserveHost :: Flags where "PreserveHost = 8"
definition Debug :: Flags where "Debug = 16"
definition HopHeadersRemoval :: Flags where "HopHeadersRemoval = 32"
definition PatchPath :: Flags where "PatchPath = 64"

definition Flags_PreserveOriginal :: "Flags \<Rightarrow> bool" where
  "Flags_PreserveOriginal f = (f AND (PreserveOriginal OR Debug) \<noteq> 0)"

definition Flags_PreserveHost :: "Flags \<Rightarrow> bool" where
  "Flags_PreserveHost f = (f AND PreserveHost \<noteq> 0)"

definition Flags_Debug :: "Flags \<Rightarrow> bool" where
  "Flags_Debug f = (f AND Debug \<noteq> 0)"

definition Flags_HopHeadersRemoval :: "Flags \<Rightarrow> bool" where
  "Flags_HopHeadersRemoval f = (f AND HopHeadersRemoval \<noteq> 0)"

text \<open>\<^verbatim>\<open>eskip.BackendType\<close>.\<close>

datatype BackendType = NetworkBackend | ShuntBackend | LoopBackend | DynamicBackend | LBBackend

text \<open>
  A request body: the nil interface, the sentinel \<^verbatim>\<open>http.NoBody\<close>, or another reader with
  the bytes that are still unread.
\<close>

datatype Body = NilBody | NoBody | Reader string

record URL =
  urlScheme :: string
  urlHost :: string
  urlUser :: "string option"
  urlPath :: string

text \<open>
  \<^verbatim>\<open>http.Request\<close>, inbound and outbound. \<open>ContextErr\<close> is what \<^verbatim>\<open>r.Context().Err()\<close>
  returns when it is read, \<open>proxyURL\<close> the scheme and host stored in the request's context
  under \<^verbatim>\<open>proxyUrlContextKey\<close>.
\<close>

record Request =
  Method :: string
  reqURL :: URL
  reqHost :: string
  reqHeader :: Header
  reqBody :: Body
  ContentLength :: int
  TLS :: bool
  RemoteAddr :: string
  ContextErr :: "ContextErr option"
  proxyURL :: "(string \<times> string) option"

text \<open>
  \<^verbatim>\<open>http.Response\<close>. The body is the list of chunks its reader will hand out, and the
  error, if any, with which reading ends.
\<close>

record Response =
  StatusCode :: int
  rspHeader :: Header
  rspBody :: "string list"
  rspBodyErr :: "string option"

text \<open>The response writer: its header map and the calls made on it, oldest first.\<close>

datatype WriterCall = WriteHeader int | Write string | Flush

record ResponseWriter =
  wHeader :: Header
  wCalls :: "WriterCall list"

text \<open>
  \<^verbatim>\<open>routing.RouteFilter\<close>: the name, and \<open>filterRef\<close>, which stands for the embedded
  \<^verbatim>\<open>filters.Filter\<close> whose hooks the environment supplies.
\<close>

record RouteFilter =
  Name :: string
  filterRef :: nat

record Route =
  RouteId :: string
  BackendType :: BackendType
  Shunt :: bool
  rtScheme :: string
  rtHost :: string
  Filters :: "RouteFilter list"

record LBEndpoint =
  epScheme :: string
  epHost :: string

text \<open>\<^verbatim>\<open>circuit.BreakerSettings\<close>: the host, and the other settings as one opaque value.\<close>

record BreakerSettings =
  bsHost :: string
  bsConfig :: nat

record RatelimitSettings =
  MaxHits :: int
  TimeWindow :: int

text \<open>
  The state bag, \<^verbatim>\<open>map[string]interface{}\<close>, as a record with one optional field for each
  key the source reads, typed as the source's type assertion expects. The callbacks
  under \<^verbatim>\<open>scheduler.LIFOKey\<close> are opaque closures: each is given by a number, and calling
  it is an event.
\<close>

record StateBag =
  LIFOKey :: "nat list option"
  RouteSettingsKey :: "BreakerSettings option"
  BackendTimeout :: "int option"
  BackendRatelimit :: "(RatelimitSettings \<times> int) option"
  DynamicBackendURLKey :: "string option"
  DynamicBackendHostKey :: "string option"
  DynamicBackendSchemeKey :: "string option"
  BackendIsProxyKey :: bool
  fastCgiFilename :: "string option"
  AccessLogEnabledKey :: "AccessLogFilter option"

text \<open>
  \<^verbatim>\<open>proxyError\<close>. The wrapped error is kept as its message.
\<close>

record proxyError =
  err :: "string option"
  code :: int
  handled :: bool
  dialingFailed :: bool
  additionalHeader :: Header

text \<open>
  Values of the interface \<^verbatim>\<open>error\<close> that the pipeline handles. The two package-level
  \<^verbatim>\<open>*proxyError\<close> sentinels are compared by pointer in the source, so each is a
  constructor of its own; \<open>PtrProxyError\<close> is any other \<^verbatim>\<open>*proxyError\<close>.
\<close>

datatype error =
    MaxLoopbackError string
  | PtrRouteLookupFailed
  | PtrCircuitBreakerOpen
  | PtrProxyError proxyError
  | OtherError string

definition errMaxLoopbacksReached :: error where
  "errMaxLoopbacksReached = MaxLoopbackError ''max loopbacks reached''"

definition errRouteLookupFailed :: error where
  "errRouteLookupFailed = PtrRouteLookupFailed"

definition errCircuitBreakerOpen :: error where
  "errCircuitBreakerOpen = PtrCircuitBreakerOpen"

definition proxyError0 :: proxyError where
  "proxyError0 = \<lparr>err = None, code = 0, handled = False, dialingFailed = False,
                   additionalHeader = []\<rparr>"

text \<open>The type assertion \<^verbatim>\<open>err.(*proxyError)\<close>, with the fields the pointer leads to.\<close>

fun asProxyError :: "error \<Rightarrow> proxyError option" where
  "asProxyError PtrRouteLookupFailed = Some (proxyError0\<lparr>err := Some ''route lookup failed''\<rparr>)"
| "asProxyError PtrCircuitBreakerOpen =
     Some (proxyError0\<lparr>err := Some ''circuit breaker open'', code := 503,
                       additionalHeader := [(''X-Circuit-Open'', [''true''])]\<rparr>)"
| "asProxyError (PtrProxyError perr) = Some perr"
| "asProxyError _ = None"

text \<open>
  The request context (the struct \<^verbatim>\<open>context\<close>; its declaration is in context.go, the
  fields are those proxy.go reads and writes). \<open>shunted\<close> and \<open>deprecatedShunted\<close> are what
  the methods of these names return, \<open>cancelBackendContext\<close> says whether the cancel
  function is set.
\<close>

record Context =
  responseWriter :: ResponseWriter
  request :: Request
  response :: "Response option"
  route :: "Route option"
  stateBag :: StateBag
  outgoingHost :: string
  executionCounter :: int
  shunted :: bool
  deprecatedShunted :: bool
  successfulUpgrade :: bool
  debugFilterPanics :: "string list"
  outgoingDebugRequest :: "Request option"
  cancelBackendContext :: bool
  pathParams :: "(string \<times> string) list"
  routeLookup :: "Request \<Rightarrow> (Route \<times> (string \<times> string) list) option"

text \<open>
  What the pipeline does to its collaborators, oldest first: filter hooks, pending LIFO
  callbacks, the circuit breaker's \<^verbatim>\<open>done\<close> callback, backend round trips, protocol
  upgrades, and the two tracing log entries \<^verbatim>\<open>retry\<close> and \<^verbatim>\<open>circuit_breaker open\<close>.
\<close>

datatype event =
    EvFilterRequest RouteFilter
  | EvFilterResponse RouteFilter
  | EvLIFODone nat
  | EvBreakerDone bool
  | EvRoundTrip Request
  | EvUpgrade Request
  | EvRetry string
  | EvCircuitBreakerOpen

text \<open>
  What a round trip returns: a response, or an error together with what the context of
  the outbound request reports once the round trip is over. An error is a
  \<^verbatim>\<open>*proxyError\<close> (the dialer's), a \<^verbatim>\<open>net.Error\<close> with its \<^verbatim>\<open>Timeout()\<close>, \<^verbatim>\<open>Temporary()\<close> and
  message, or any other error.
\<close>

datatype RoundTripError =
    DialerProxyError proxyError
  | NetError bool bool string
  | PlainError string

datatype RoundTripResult =
    RoundTripOk Response
  | RoundTripErr RoundTripError "ContextErr option"

text \<open>
  The proxy, with the fields the pipeline reads. The registries and the transport are
  collaborators: each is given by what its calls return, as a function of the call's
  arguments and of the events so far. A circuit breaker's \<^verbatim>\<open>Allow\<close> returns whether the
  \<^verbatim>\<open>done\<close> callback is non-nil, and \<^verbatim>\<open>ok\<close>.
\<close>

record Proxy =
  experimentalUpgrade :: bool
  accessLogDisabled :: bool
  maxLoops :: int
  defaultHTTPStatus :: int
  flags :: Flags
  priorityRoutes :: "(Request \<Rightarrow> (Route \<times> (string \<times> string) list) option) list"
  breakers :: "(BreakerSettings \<Rightarrow> (event list \<Rightarrow> bool \<times> bool) option) option"
  limiters_Check :: "Request \<Rightarrow> RatelimitSettings \<times> int"
  limiters_AllowContext :: "event list \<Rightarrow> RatelimitSettings \<Rightarrow> string \<Rightarrow> bool"
  roundTripper :: "event list \<Rightarrow> Request \<Rightarrow> RoundTripResult"

text \<open>
  The collaborators outside proxy.go: the hooks of the filters (each returns the context
  as it leaves it and, when it panicked, the value of the panic), the load-balancer
  algorithm, the FastCGI transport, the debug responder, the upgrade test, and functions
  of the standard library.
\<close>

record Env =
  filter_Request :: "nat \<Rightarrow> Context \<Rightarrow> Context \<times> string option"
  filter_Response :: "nat \<Rightarrow> Context \<Rightarrow> Context \<times> string option"
  LBAlgorithm_Apply :: "event list \<Rightarrow> Request \<Rightarrow> Route \<Rightarrow> StateBag \<Rightarrow> LBEndpoint"
  isUpgradeRequest :: "Request \<Rightarrow> bool"
  fastcgi_NewRoundTripper :: "string \<Rightarrow> string \<Rightarrow> string option"
  fastcgi_RoundTrip :: "event list \<Rightarrow> Request \<Rightarrow> RoundTripResult"
  dbgResponse :: "ResponseWriter \<Rightarrow> Context \<Rightarrow> error option \<Rightarrow> ResponseWriter"
  ratelimit_Headers :: "int \<Rightarrow> int \<Rightarrow> int \<Rightarrow> Header"
  defaultResponse :: "Request \<Rightarrow> Response"
  url_ParseRequestURI :: "string \<Rightarrow> URL option"
  url_Port :: "URL \<Rightarrow> string"
  net_SplitHostPort_ok :: "string \<Rightarrow> bool"
  http_NewRequest :: "string \<Rightarrow> URL \<Rightarrow> string + URL"
  http_StatusText :: "int \<Rightarrow> string"
  strconv_Itoa :: "int \<Rightarrow> string"
  base64_EncodeToString :: "string \<Rightarrow> string"

subsection \<open>Construction: \<^verbatim>\<open>WithParams\<close>\<close>

text \<open>
  The part of \<^verbatim>\<open>Params\<close> that reaches the fields above, and what \<^verbatim>\<open>WithParams\<close> makes
  of it: the loop budget and the default status.
\<close>

record Params =
  pFlags :: Flags
  pPriorityRoutes :: "(Request \<Rightarrow> (Route \<times> (string \<times> string) list) option) list"
  pExperimentalUpgrade :: bool
  pAccessLogDisabled :: bool
  pDefaultHTTPStatus :: int
  pMaxLoopbacks :: int
  pCircuitBreakers :: "(BreakerSettings \<Rightarrow> (event list \<Rightarrow> bool \<times> bool) option) option"
  pRateLimiters_Check :: "Request \<Rightarrow> RatelimitSettings \<times> int"
  pRateLimiters_AllowContext :: "event list \<Rightarrow> RatelimitSettings \<Rightarrow> string \<Rightarrow> bool"
  pTransport :: "event list \<Rightarrow> Request \<Rightarrow> RoundTripResult"

definition DefaultMaxLoopbacks :: int where
  "DefaultMaxLoopbacks = 9"

definition WithParams :: "Params \<Rightarrow> Proxy" where
  "WithParams p =
     \<lparr>experimentalUpgrade = pExperimentalUpgrade p,
      accessLogDisabled = pAccessLogDisabled p,
      maxLoops = (if pMaxLoopbacks p = 0 then DefaultMaxLoopbacks
                  else if pMaxLoopbacks p < 0 then 0 else pMaxLoopbacks p),
      defaultHTTPStatus = (if pDefaultHTTPStatus p \<ge> 100 \<and> pDefaultHTTPStatus p \<le> 511
                           then pDefaultHTTPStatus p else 404),
      flags = pFlags p,
      priorityRoutes = pPriorityRoutes p,
      breakers = pCircuitBreakers p,
      limiters_Check = pRateLimiters_Check p,
      limiters_AllowContext = pRateLimiters_AllowContext p,
      roundTripper = pTransport p\<rparr>"

subsection \<open>Error responder: \<^verbatim>\<open>sendError\<close>, \<^verbatim>\<open>errorResponse\<close>\<close>

definition unknownRouteID :: string where
  "unknownRouteID = ''_unknownroute_''"

definition sendError :: "Env \<Rightarrow> Context \<Rightarrow> string \<Rightarrow> int \<Rightarrow> Context" where
  "sendError env c rid status =
     (let w = responseWriter c;
          h0 = addBranding (wHeader w);
          body = http_StatusText env status @ [CHR 0x0A];
          h1 = Header_Set h0 ''Content-Length'' (strconv_Itoa env (int (length body)));
          h2 = Header_Set h1 ''Content-Type'' ''text/plain; charset=utf-8'';
          h3 = Header_Set h2 ''X-Content-Type-Options'' ''nosniff''
      in c\<lparr>responseWriter := w\<lparr>wHeader := h3,
                                 wCalls := wCalls w @ [WriteHeader status, Write body]\<rparr>\<rparr>)"

text \<open>The \<^verbatim>\<open>switch\<close> of \<^verbatim>\<open>errorResponse\<close>: the value of its local \<^verbatim>\<open>code\<close>.\<close>

definition errorResponse_code :: "Proxy \<Rightarrow> error \<Rightarrow> int" where
  "errorResponse_code p e =
     (if e = errRouteLookupFailed then defaultHTTPStatus p
      else (case asProxyError e of
              Some perr \<Rightarrow>
                if code perr = - 1 then 502
                else if code perr \<noteq> 0 then code perr
                else 500
            | None \<Rightarrow> 500))"

definition errorHandled :: "error \<Rightarrow> bool" where
  "errorHandled e = (case asProxyError e of Some perr \<Rightarrow> handled perr | None \<Rightarrow> False)"

text \<open>
  \<^verbatim>\<open>errorResponse\<close>. The tracing tags and the log line are left out; in debug mode the
  response is written by \<^verbatim>\<open>dbgResponse\<close> (debug.go).
\<close>

definition errorResponse :: "Proxy \<Rightarrow> Env \<Rightarrow> Context \<Rightarrow> error \<Rightarrow> Context" where
  "errorResponse p env ctx e =
     (if errorHandled e then ctx
      else
        let rid = (case route ctx of None \<Rightarrow> unknownRouteID | Some rt \<Rightarrow> RouteId rt);
            status = errorResponse_code p e
        in if Flags_Debug (flags p) then
             ctx\<lparr>responseWriter := dbgResponse env (responseWriter ctx) ctx (Some e)\<rparr>
           else
             let w = responseWriter ctx;
                 w' = (case asProxyError e of
                         Some perr \<Rightarrow>
                           if length (additionalHeader perr) > 0
                           then w\<lparr>wHeader := copyHeader (wHeader w) (additionalHeader perr)\<rparr>
                           else w
                       | None \<Rightarrow> w)
             in sendError env (ctx\<lparr>responseWriter := w'\<rparr>) rid status)"

subsection \<open>Response streamer: \<^verbatim>\<open>copyStream\<close>, \<^verbatim>\<open>serveResponse\<close>\<close>

text \<open>
  \<^verbatim>\<open>copyStream\<close>: every chunk read is written and flushed (\<^verbatim>\<open>flusher.Write\<close>).
\<close>

fun copyStream :: "ResponseWriter \<Rightarrow> string list \<Rightarrow> ResponseWriter" where
  "copyStream to [] = to"
| "copyStream to (b # rest) = copyStream (to\<lparr>wCalls := wCalls to @ [Write b, Flush]\<rparr>) rest"

text \<open>
  \<^verbatim>\<open>serveResponse\<close>. \<open>None\<close> is the nil-pointer panic of \<^verbatim>\<open>ctx.response.Header\<close> on a
  context without a response. Tracing and metrics are left out.
\<close>

definition serveResponse :: "Proxy \<Rightarrow> Env \<Rightarrow> Context \<Rightarrow> Context option" where
  "serveResponse p env ctx =
     (if Flags_Debug (flags p) then
        Some (ctx\<lparr>responseWriter := dbgResponse env (responseWriter ctx) ctx None\<rparr>)
      else
        (case response ctx of
           None \<Rightarrow> None
         | Some rsp \<Rightarrow>
             let w = responseWriter ctx;
                 w1 = w\<lparr>wHeader := copyHeader (wHeader w) (rspHeader rsp)\<rparr>;
                 rsp1 = (if ContextErr (request ctx) \<noteq> None then rsp\<lparr>StatusCode := 499\<rparr>
                         else rsp);
                 w2 = w1\<lparr>wCalls := wCalls w1 @ [WriteHeader (StatusCode rsp1), Flush]\<rparr>;
                 w3 = copyStream w2 (rspBody rsp1)
             in Some (ctx\<lparr>response := Some (rsp1\<lparr>rspBody := []\<rparr>), responseWriter := w3\<rparr>)))"

subsection \<open>Request mapper: \<^verbatim>\<open>mapRequest\<close>\<close>

definition schemeFromRequest :: "Request \<Rightarrow> string" where
  "schemeFromRequest r = (if TLS r then ''https'' else ''http'')"

definition setRequestURLFromRequest :: "URL \<Rightarrow> Request \<Rightarrow> URL" where
  "setRequestURLFromRequest u r =
     (let u1 = (if urlHost u = [] then u\<lparr>urlHost := reqHost r\<rparr> else u)
      in if urlScheme u1 = [] then u1\<lparr>urlScheme := schemeFromRequest r\<rparr> else u1)"

definition setRequestURLForDynamicBackend :: "Env \<Rightarrow> URL \<Rightarrow> StateBag \<Rightarrow> URL" where
  "setRequestURLForDynamicBackend env u bag =
     (if DynamicBackendURLKey bag \<noteq> None \<and> DynamicBackendURLKey bag \<noteq> Some [] then
        (case url_ParseRequestURI env (the (DynamicBackendURLKey bag)) of
           Some bu \<Rightarrow> u\<lparr>urlHost := urlHost bu, urlScheme := urlScheme bu\<rparr>
         | None \<Rightarrow> u)
      else
        let u1 = (case DynamicBackendHostKey bag of
                    Some host \<Rightarrow> if host \<noteq> [] then u\<lparr>urlHost := host\<rparr> else u
                  | None \<Rightarrow> u)
        in (case DynamicBackendSchemeKey bag of
              Some scheme \<Rightarrow> if scheme \<noteq> [] then u1\<lparr>urlScheme := scheme\<rparr> else u1
            | None \<Rightarrow> u1))"

definition setRequestURLForLoadBalancedBackend ::
  "Env \<Rightarrow> event list \<Rightarrow> URL \<Rightarrow> Request \<Rightarrow> Route \<Rightarrow> StateBag \<Rightarrow> URL \<times> LBEndpoint" where
  "setRequestURLForLoadBalancedBackend env tr u r rt bag =
     (let e = LBAlgorithm_Apply env tr r rt bag
      in (u\<lparr>urlScheme := epScheme e, urlHost := epHost e\<rparr>, e))"

definition forwardToProxy :: "Request \<Rightarrow> Request \<Rightarrow> Request" where
  "forwardToProxy incoming outgoing =
     outgoing\<lparr>reqURL := (reqURL outgoing)\<lparr>urlHost := reqHost incoming,
                                           urlScheme := schemeFromRequest incoming\<rparr>,
              proxyURL := Some (urlScheme (reqURL outgoing), urlHost (reqURL outgoing))\<rparr>"

text \<open>
  \<^verbatim>\<open>mapRequest\<close>. The route \<open>rt\<close> is \<^verbatim>\<open>ctx.route\<close>, which \<^verbatim>\<open>do\<close> has set before it maps a
  request. \<^verbatim>\<open>u\<close> is the pointer \<^verbatim>\<open>r.URL\<close>, so what is assigned to it shows in the inbound
  request: the context is returned with it. \<^verbatim>\<open>http.NewRequestWithContext\<close> fails or
  returns the parsed URL. The outbound request starts with the context error of the
  inbound one, from whose context its own is derived. The tracing span is left out.
\<close>

definition mapRequest ::
  "Env \<Rightarrow> Route \<Rightarrow> Context \<Rightarrow> event list \<Rightarrow> bool
     \<Rightarrow> (string + Request) \<times> LBEndpoint option \<times> Context" where
  "mapRequest env rt ctx tr removeHopHeaders =
     (let r = request ctx;
          host = outgoingHost ctx;
          bag = stateBag ctx;
          (u, endpoint) =
            (case BackendType rt of
               DynamicBackend \<Rightarrow>
                 (setRequestURLForDynamicBackend env (setRequestURLFromRequest (reqURL r) r) bag,
                  None)
             | LBBackend \<Rightarrow>
                 (case setRequestURLForLoadBalancedBackend env tr (reqURL r) r rt bag of
                    (u', e) \<Rightarrow> (u', Some e))
             | _ \<Rightarrow> ((reqURL r)\<lparr>urlScheme := rtScheme rt, urlHost := rtHost rt\<rparr>, None));
          ctx' = ctx\<lparr>request := r\<lparr>reqURL := u\<rparr>\<rparr>;
          body = (if ContentLength r = 0 then NilBody else reqBody r)
      in (case http_NewRequest env (Method r) u of
            Inl e \<Rightarrow> (Inl e, endpoint, ctx')
          | Inr ru \<Rightarrow>
              let h0 = (if removeHopHeaders then cloneHeaderExcluding (reqHeader r) hopHeaders
                        else cloneHeader (reqHeader r));
                  h1 = (case map_of h0 ''User-Agent'' of
                          None \<Rightarrow> AList.update ''User-Agent'' [[]] h0
                        | Some _ \<Rightarrow> h0);
                  h2 = (case urlUser u of
                          Some up \<Rightarrow>
                            Header_Add h1 ''Authorization''
                              (''Basic '' @ base64_EncodeToString env up)
                        | None \<Rightarrow> h1);
                  rr = \<lparr>Method = Method r, reqURL = ru, reqHost = host, reqHeader = h2,
                        reqBody = body, ContentLength = ContentLength r, TLS = False,
                        RemoteAddr = [], ContextErr = ContextErr r, proxyURL = None\<rparr>
              in (Inr (if BackendIsProxyKey bag then forwardToProxy (r\<lparr>reqURL := u\<rparr>) rr else rr),
                  endpoint, ctx')))"

subsection \<open>Backend request: \<^verbatim>\<open>rejectBackend\<close>, \<^verbatim>\<open>getRoundTripper\<close>, \<^verbatim>\<open>makeBackendRequest\<close>\<close>

definition rejectBackend :: "Proxy \<Rightarrow> Context \<Rightarrow> Request \<Rightarrow> event list \<Rightarrow> Response option" where
  "rejectBackend p ctx req tr =
     (case BackendRatelimit (stateBag ctx) of
        Some (settings, statusCode) \<Rightarrow>
          if \<not> limiters_AllowContext p tr settings
                 (urlScheme (reqURL req) @ ''://'' @ urlHost (reqURL req))
          then Some \<lparr>StatusCode = statusCode, rspHeader = [(''Content-Length'', [''0''])],
                     rspBody = [], rspBodyErr = None\<rparr>
          else None
      | None \<Rightarrow> None)"

text \<open>The round tripper that is chosen: the proxy's transport, or a FastCGI one.\<close>

datatype Transport = ProxyTransport | FastCGITransport string string

definition getRoundTripper :: "Env \<Rightarrow> Context \<Rightarrow> Request \<Rightarrow> string + Transport \<times> Request" where
  "getRoundTripper env ctx req =
     (if urlScheme (reqURL req) = ''fastcgi'' then
        let path = urlPath (reqURL req);
            f = (case fastCgiFilename (stateBag ctx) of
                   Some sf \<Rightarrow> sf
                 | None \<Rightarrow> if length path > 1 \<and> path \<noteq> ''/'' then drop 1 path
                            else ''index.php'')
        in (case fastcgi_NewRoundTripper env (urlHost (reqURL req)) f of
              Some e \<Rightarrow> Inl e
            | None \<Rightarrow>
                let req1 = (if \<not> net_SplitHostPort_ok env (reqHost req)
                            then req\<lparr>reqHost := reqHost req @ '':'' @ url_Port env (reqURL req)\<rparr>
                            else req)
                in Inr (FastCGITransport (urlHost (reqURL req)) f,
                        req1\<lparr>RemoteAddr := RemoteAddr (request ctx)\<rparr>))
      else Inr (ProxyTransport, req))"

definition RoundTrip :: "Proxy \<Rightarrow> Env \<Rightarrow> Transport \<Rightarrow> event list \<Rightarrow> Request \<Rightarrow> RoundTripResult" where
  "RoundTrip p env t tr req =
     (case t of
        ProxyTransport \<Rightarrow> roundTripper p tr req
      | FastCGITransport _ _ \<Rightarrow> fastcgi_RoundTrip env tr req)"

definition errorMessage :: "string option \<Rightarrow> string" where
  "errorMessage e = (case e of None \<Rightarrow> ''<nil>'' | Some m \<Rightarrow> m)"

text \<open>
  The block \<^verbatim>\<open>if err != nil { ... }\<close> that follows the round trip in
  \<^verbatim>\<open>makeBackendRequest\<close>: \<open>e\<close> is the error of the round trip, \<open>cerr\<close> is
  \<^verbatim>\<open>req.Context().Err()\<close>.
\<close>

definition roundTripFailed :: "Request \<Rightarrow> RoundTripError \<Rightarrow> ContextErr option \<Rightarrow> proxyError" where
  "roundTripFailed req e cerr =
     (if cerr \<noteq> None \<and> cerr = Some Canceled then
        proxyError0\<lparr>err := Some ''context canceled'', code := 499\<rparr>
      else if cerr \<noteq> None \<and> cerr = Some DeadlineExceeded then
        proxyError0\<lparr>err := Some ''context deadline exceeded'', code := 504\<rparr>
      else
        (case e of
           DialerProxyError perr \<Rightarrow>
             perr\<lparr>err := Some (''failed to do backend roundtrip to '' @ urlHost (reqURL req) @
                               '': '' @ errorMessage (err perr))\<rparr>
         | NetError timeout temporary msg \<Rightarrow>
             proxyError0\<lparr>err := Some (''net.Error during backend roundtrip to '' @
                                       urlHost (reqURL req) @ '': '' @ msg),
                         code := (if timeout then 504 else 503)\<rparr>
         | PlainError msg \<Rightarrow>
             proxyError0\<lparr>err := Some (''unexpected error from Go stdlib net/http package during roundtrip: '' @ msg)\<rparr>))"

text \<open>
  \<^verbatim>\<open>makeBackendRequest\<close>. \<^verbatim>\<open>makeUpgradeRequest\<close> always returns nil, so its error branch
  is not there. The inflight counter of the endpoint, the tracing span and the headers
  the tracer injects are left out.
\<close>

definition makeBackendRequest ::
  "Proxy \<Rightarrow> Env \<Rightarrow> Route \<Rightarrow> Context \<Rightarrow> event list
     \<Rightarrow> (proxyError + Response) \<times> Context \<times> event list" where
  "makeBackendRequest p env rt ctx tr =
     (case mapRequest env rt ctx tr (Flags_HopHeadersRemoval (flags p)) of
        (Inl e, endpoint, ctx1) \<Rightarrow>
          (Inl (proxyError0\<lparr>err := Some (''could not map backend request: '' @ e)\<rparr>), ctx1, tr)
      | (Inr req, endpoint, ctx1) \<Rightarrow>
          (case rejectBackend p ctx1 req tr of
             Some res \<Rightarrow> (Inr res, ctx1, tr)
           | None \<Rightarrow>
               if experimentalUpgrade p \<and> isUpgradeRequest env req then
                 (Inl (proxyError0\<lparr>handled := True\<rparr>), ctx1\<lparr>successfulUpgrade := True\<rparr>,
                  tr @ [EvUpgrade req])
               else
                 (case getRoundTripper env ctx1 req of
                    Inl e \<Rightarrow>
                      (Inl (proxyError0\<lparr>err := Some (''failed to get roundtripper: '' @ e),
                                        code := 502\<rparr>), ctx1, tr)
                  | Inr (t, req1) \<Rightarrow>
                      (case RoundTrip p env t tr req1 of
                         RoundTripOk rsp \<Rightarrow> (Inr rsp, ctx1, tr @ [EvRoundTrip req1])
                       | RoundTripErr e cerr \<Rightarrow>
                           (Inl (roundTripFailed req1 e cerr), ctx1, tr @ [EvRoundTrip req1])))))"

subsection \<open>Filter runner: \<^verbatim>\<open>tryCatch\<close>, \<^verbatim>\<open>applyFiltersToRequest\<close>, \<^verbatim>\<open>applyFiltersToResponse\<close>\<close>

text \<open>
  Modelled from the spec: the filter interface (package filters) is not in proxy.go. A
  hook may mutate the context's request, response and state bag and may signal shunt;
  the outgoing host and the response writer are reachable too. The other fields of the
  context are private to the proxy: they keep their values.
\<close>

definition afterHook :: "Context \<Rightarrow> Context \<Rightarrow> Context" where
  "afterHook ctx c =
     ctx\<lparr>responseWriter := responseWriter c, request := request c, response := response c,
         stateBag := stateBag c, outgoingHost := outgoingHost c, shunted := shunted c,
         deprecatedShunted := deprecatedShunted c\<rparr>"

text \<open>
  \<^verbatim>\<open>tryCatch\<close> around one hook: a panic is recovered; in debug mode its value is appended
  to \<^verbatim>\<open>debugFilterPanics\<close>, otherwise it is logged.
\<close>

definition tryCatch :: "Proxy \<Rightarrow> (Context \<Rightarrow> Context \<times> string option) \<Rightarrow> Context \<Rightarrow> Context" where
  "tryCatch p hook ctx =
     (case hook ctx of
        (c, None) \<Rightarrow> afterHook ctx c
      | (c, Some e) \<Rightarrow>
          if Flags_Debug (flags p)
          then (afterHook ctx c)\<lparr>debugFilterPanics := debugFilterPanics ctx @ [e]\<rparr>
          else afterHook ctx c)"

text \<open>The loop of \<^verbatim>\<open>applyFiltersToRequest\<close>; \<open>filters\<close> is the slice that is appended to.\<close>

fun applyFiltersToRequest_loop ::
  "Proxy \<Rightarrow> Env \<Rightarrow> RouteFilter list \<Rightarrow> RouteFilter list \<Rightarrow> Context \<Rightarrow> event list
     \<Rightarrow> RouteFilter list \<times> Context \<times> event list" where
  "applyFiltersToRequest_loop p env [] filters ctx tr = (filters, ctx, tr)"
| "applyFiltersToRequest_loop p env (fi # rest) filters ctx tr =
     (let ctx1 = tryCatch p (filter_Request env (filterRef fi)) ctx;
          tr1 = tr @ [EvFilterRequest fi];
          filters1 = filters @ [fi]
      in if deprecatedShunted ctx1 \<or> shunted ctx1 then (filters1, ctx1, tr1)
         else applyFiltersToRequest_loop p env rest filters1 ctx1 tr1)"

definition applyFiltersToRequest ::
  "Proxy \<Rightarrow> Env \<Rightarrow> RouteFilter list \<Rightarrow> Context \<Rightarrow> event list
     \<Rightarrow> RouteFilter list \<times> Context \<times> event list" where
  "applyFiltersToRequest p env f ctx tr =
     (if length f = 0 then (f, ctx, tr) else applyFiltersToRequest_loop p env f [] ctx tr)"

text \<open>
  The loop of \<^verbatim>\<open>applyFiltersToResponse\<close> over the indices \<^verbatim>\<open>i\<close> of \<^verbatim>\<open>filters\<close>, reading
  \<^verbatim>\<open>filters[last-i]\<close>.
\<close>

fun applyFiltersToResponse_loop ::
  "Proxy \<Rightarrow> Env \<Rightarrow> RouteFilter list \<Rightarrow> nat list \<Rightarrow> Context \<Rightarrow> event list
     \<Rightarrow> Context \<times> event list" where
  "applyFiltersToResponse_loop p env filters [] ctx tr = (ctx, tr)"
| "applyFiltersToResponse_loop p env filters (i # rest) ctx tr =
     (let fi = filters ! (length filters - 1 - i);
          ctx1 = tryCatch p (filter_Response env (filterRef fi)) ctx
      in applyFiltersToResponse_loop p env filters rest ctx1 (tr @ [EvFilterResponse fi]))"

definition applyFiltersToResponse ::
  "Proxy \<Rightarrow> Env \<Rightarrow> RouteFilter list \<Rightarrow> Context \<Rightarrow> event list \<Rightarrow> Context \<times> event list" where
  "applyFiltersToResponse p env filters ctx tr =
     applyFiltersToResponse_loop p env filters [0..<length filters] ctx tr"

subsection \<open>Circuit-breaker gate and retry: \<^verbatim>\<open>checkBreaker\<close>, \<^verbatim>\<open>retryable\<close>\<close>

text \<open>
  \<^verbatim>\<open>io.Copy(io.Discard, body)\<close>: the body is read to its end. Reading is taken to succeed.
\<close>

fun discardBody :: "Body \<Rightarrow> Body" where
  "discardBody NilBody = NilBody"
| "discardBody NoBody = NoBody"
| "discardBody (Reader _) = Reader []"

text \<open>
  The settings \<^verbatim>\<open>checkBreaker\<close> looks the breaker up with: those of the state bag, or
  the zero value, with the outgoing host.
\<close>

definition breakerSettings :: "Context \<Rightarrow> BreakerSettings" where
  "breakerSettings c =
     (case RouteSettingsKey (stateBag c) of
        Some s \<Rightarrow> s
      | None \<Rightarrow> \<lparr>bsHost = [], bsConfig = 0\<rparr>)\<lparr>bsHost := outgoingHost c\<rparr>"

definition checkBreaker :: "Proxy \<Rightarrow> Context \<Rightarrow> event list \<Rightarrow> (bool \<times> bool) \<times> Context" where
  "checkBreaker p c tr =
     (case breakers p of
        None \<Rightarrow> ((False, True), c)
      | Some registry \<Rightarrow>
          (case registry (breakerSettings c) of
             None \<Rightarrow> ((False, True), c)
           | Some b \<Rightarrow>
               (case b tr of
                  (doneF, ok) \<Rightarrow>
                    if \<not> ok \<and> reqBody (request c) \<noteq> NilBody
                    then ((doneF, ok),
                          c\<lparr>request := (request c)\<lparr>reqBody := discardBody (reqBody (request c))\<rparr>\<rparr>)
                    else ((doneF, ok), c))))"

text \<open>
  \<^verbatim>\<open>retryable\<close>. \<^verbatim>\<open>req != nil\<close> holds where \<^verbatim>\<open>do\<close> calls it: \<^verbatim>\<open>mapRequest\<close> has read
  \<^verbatim>\<open>ctx.request.URL\<close> before.
\<close>

definition retryable :: "Route \<Rightarrow> Context \<Rightarrow> proxyError \<Rightarrow> bool" where
  "retryable rt ctx perr =
     (let req = request ctx
      in code perr \<noteq> 499 \<and> dialingFailed perr \<and>
         BackendType rt = LBBackend \<and>
         (reqBody req = NilBody \<or> reqBody req = NoBody))"

definition newRatelimitError :: "Env \<Rightarrow> RatelimitSettings \<Rightarrow> int \<Rightarrow> error" where
  "newRatelimitError env settings retryAfter =
     PtrProxyError (proxyError0\<lparr>err := Some ''ratelimited'', code := 429,
       additionalHeader := ratelimit_Headers env (MaxHits settings) (TimeWindow settings) retryAfter\<rparr>)"

subsection \<open>Pipeline engine: \<^verbatim>\<open>lookupRoute\<close>, \<^verbatim>\<open>do\<close>\<close>

fun lookupRoute_loop ::
  "(Request \<Rightarrow> (Route \<times> (string \<times> string) list) option) list \<Rightarrow> Context
     \<Rightarrow> (Route \<times> (string \<times> string) list) option" where
  "lookupRoute_loop [] ctx = routeLookup ctx (request ctx)"
| "lookupRoute_loop (prt # rest) ctx =
     (case prt (request ctx) of
        Some (rt, params) \<Rightarrow> Some (rt, params)
      | None \<Rightarrow> lookupRoute_loop rest ctx)"

definition lookupRoute :: "Proxy \<Rightarrow> Context \<Rightarrow> (Route \<times> (string \<times> string) list) option" where
  "lookupRoute p ctx = lookupRoute_loop (priorityRoutes p) ctx"

text \<open>
  Modelled from the spec: the methods of the context that proxy.go calls and context.go
  declares. \<^verbatim>\<open>wasExecuted\<close>: the context is not that of a root call
  (\<^verbatim>\<open>executionCounter\<close> is not 0). \<^verbatim>\<open>applyRoute\<close>: sets the route and the parameters, and
  the outgoing host per \<^verbatim>\<open>PreserveHost\<close>. \<^verbatim>\<open>ensureDefaultResponse\<close>: a default response is
  set where there is none. \<^verbatim>\<open>setResponse\<close>: sets the response. \<^verbatim>\<open>clone\<close>: a value copy of
  the context.
\<close>

definition wasExecuted :: "Context \<Rightarrow> bool" where
  "wasExecuted ctx = (executionCounter ctx \<noteq> 0)"

definition applyRoute :: "Context \<Rightarrow> Route \<Rightarrow> (string \<times> string) list \<Rightarrow> bool \<Rightarrow> Context" where
  "applyRoute ctx rt params preserveHost =
     ctx\<lparr>route := Some rt,
         outgoingHost := (if preserveHost then reqHost (request ctx) else rtHost rt),
         pathParams := params\<rparr>"

definition ensureDefaultResponse :: "Env \<Rightarrow> Context \<Rightarrow> Context" where
  "ensureDefaultResponse env ctx =
     (case response ctx of
        None \<Rightarrow> ctx\<lparr>response := Some (defaultResponse env (request ctx))\<rparr>
      | Some _ \<Rightarrow> ctx)"

definition setResponse :: "Context \<Rightarrow> Response option \<Rightarrow> bool \<Rightarrow> Context" where
  "setResponse ctx r preserveOriginal = ctx\<lparr>response := r\<rparr>"

definition clone :: "Context \<Rightarrow> Context" where
  "clone ctx = ctx"

text \<open>
  The copy that \<^verbatim>\<open>clone\<close> makes shares with the original what its fields point to: the
  state bag (a Go map), the request and the response writer. After the inner pipeline
  has run on the copy, the original context sees them as the copy left them.
\<close>

definition sharedWith :: "Context \<Rightarrow> Context \<Rightarrow> Context" where
  "sharedWith ctx loopCTX =
     ctx\<lparr>stateBag := stateBag loopCTX, request := request loopCTX,
         responseWriter := responseWriter loopCTX\<rparr>"

text \<open>
  What a call of \<^verbatim>\<open>do\<close> yields: it returns nil or an error, or it panics (the nil-pointer
  dereference of \<^verbatim>\<open>ctx.response.Header\<close>).
\<close>

datatype Outcome = Returns "error option" | Panics string

text \<open>
  The deferred function of \<^verbatim>\<open>do\<close>: it runs when \<^verbatim>\<open>do\<close> leaves, on the context as it is
  then.
\<close>

definition pendingLIFO :: "Context \<Rightarrow> nat list" where
  "pendingLIFO ctx = (case LIFOKey (stateBag ctx) of None \<Rightarrow> [] | Some l \<Rightarrow> l)"

definition deferredLIFO :: "Outcome \<times> Context \<times> event list \<Rightarrow> Outcome \<times> Context \<times> event list" where
  "deferredLIFO r =
     (case r of (out, ctx, tr) \<Rightarrow> (out, ctx, tr @ map EvLIFODone (pendingLIFO ctx)))"

text \<open>
  Modelled from the spec: the filters that push a cleanup callback (package
  filters/scheduler) are not in proxy.go. The callbacks are an ordered list, the slice
  \<^verbatim>\<open>[]func()\<close> that the deferred function reads; a filter pushes a callback by appending
  it to the list that is under the key.
\<close>

definition pushLIFO :: "nat \<Rightarrow> Context \<Rightarrow> Context" where
  "pushLIFO cb c = c\<lparr>stateBag := (stateBag c)\<lparr>LIFOKey := Some (pendingLIFO c @ [cb])\<rparr>\<rparr>"

text \<open>
  The end of \<^verbatim>\<open>do\<close>: \<^verbatim>\<open>addBranding(ctx.response.Header)\<close>, the response filters, and
  \<^verbatim>\<open>return nil\<close>.
\<close>

definition doFinish ::
  "Proxy \<Rightarrow> Env \<Rightarrow> RouteFilter list \<Rightarrow> Context \<Rightarrow> event list
     \<Rightarrow> Outcome \<times> Context \<times> event list" where
  "doFinish p env processedFilters ctx tr =
     (case response ctx of
        None \<Rightarrow> (Panics ''invalid memory address or nil pointer dereference'', ctx, tr)
      | Some rsp \<Rightarrow>
          (case applyFiltersToResponse p env processedFilters
                  (ctx\<lparr>response := Some (rsp\<lparr>rspHeader := addBranding (rspHeader rsp)\<rparr>)\<rparr>) tr of
             (ctx', tr') \<Rightarrow> (Returns None, ctx', tr')))"

text \<open>
  The last branch of \<^verbatim>\<open>do\<close>, up to \<^verbatim>\<open>ctx.setResponse(rsp, ...)\<close>: the circuit-breaker gate,
  the backend timeout (\<open>withBackendTimeout\<close>: with a timeout in the state bag the cancel
  function of the derived context is kept), the backend request and its retry. Metrics
  are left out.
\<close>

definition withBackendTimeout :: "Context \<Rightarrow> Context" where
  "withBackendTimeout ctx =
     (case BackendTimeout (stateBag ctx) of
        Some _ \<Rightarrow> ctx\<lparr>cancelBackendContext := True\<rparr>
      | None \<Rightarrow> ctx)"

definition doBackend ::
  "Proxy \<Rightarrow> Env \<Rightarrow> Route \<Rightarrow> Context \<Rightarrow> event list
     \<Rightarrow> (error + Response) \<times> Context \<times> event list" where
  "doBackend p env rt ctx tr =
     (case checkBreaker p ctx tr of
        ((doneF, allow), ctx0) \<Rightarrow>
          if \<not> allow then (Inl errCircuitBreakerOpen, ctx0, tr @ [EvCircuitBreakerOpen])
          else
            (case makeBackendRequest p env rt (withBackendTimeout ctx0) tr of
               (Inl perr, ctx2, tr2) \<Rightarrow>
                 let tr3 = (if doneF then tr2 @ [EvBreakerDone False] else tr2)
                 in if retryable rt ctx2 perr then
                      (case makeBackendRequest p env rt ctx2 (tr3 @ [EvRetry (RouteId rt)]) of
                         (Inl perr2, ctx3, tr4) \<Rightarrow> (Inl (PtrProxyError perr2), ctx3, tr4)
                       | (Inr rsp, ctx3, tr4) \<Rightarrow>
                           (Inr rsp, ctx3,
                            if doneF then tr4 @ [EvBreakerDone (StatusCode rsp < 500)] else tr4))
                    else (Inl (PtrProxyError perr), ctx2, tr3)
             | (Inr rsp, ctx2, tr2) \<Rightarrow>
                 (Inr rsp, ctx2,
                  if doneF then tr2 @ [EvBreakerDone (StatusCode rsp < 500)] else tr2)))"

text \<open>
  \<^verbatim>\<open>do\<close>, from the route lookup on, for a context whose \<^verbatim>\<open>executionCounter\<close> has been
  incremented: everything but the loop guard, the deferred function and the global rate
  limit. \<open>loop\<close> is the recursive call \<^verbatim>\<open>p.do(loopCTX)\<close>.
\<close>

definition doRoute ::
  "(Context \<Rightarrow> event list \<Rightarrow> Outcome \<times> Context \<times> event list)
     \<Rightarrow> Proxy \<Rightarrow> Env \<Rightarrow> Context \<Rightarrow> event list \<Rightarrow> Outcome \<times> Context \<times> event list" where
  "doRoute loop p env ctx tr =
     (case lookupRoute p ctx of
        None \<Rightarrow> (Returns (Some errRouteLookupFailed), ctx, tr)
      | Some (rt, params) \<Rightarrow>
          (case applyFiltersToRequest p env (Filters rt)
                  (applyRoute ctx rt params (Flags_PreserveHost (flags p))) tr of
             (processedFilters, ctx1, tr1) \<Rightarrow>
               if deprecatedShunted ctx1 then
                 (Returns (Some (PtrProxyError (proxyError0\<lparr>handled := True\<rparr>))), ctx1, tr1)
               else if shunted ctx1 \<or> Shunt rt \<or> BackendType rt = ShuntBackend then
                 doFinish p env processedFilters
                   (ensureDefaultResponse env
                      (if reqBody (request ctx1) \<noteq> NilBody
                       then ctx1\<lparr>request := (request ctx1)\<lparr>reqBody := discardBody (reqBody (request ctx1))\<rparr>\<rparr>
                       else ctx1)) tr1
               else if BackendType rt = LoopBackend then
                 (case loop (clone ctx1) tr1 of
                    (Returns None, loopCTX, tr2) \<Rightarrow>
                      doFinish p env processedFilters
                        (setResponse (sharedWith ctx1 loopCTX) (response loopCTX)
                           (Flags_PreserveOriginal (flags p))) tr2
                  | (out, loopCTX, tr2) \<Rightarrow> (out, sharedWith ctx1 loopCTX, tr2))
               else if Flags_Debug (flags p) then
                 (case mapRequest env rt ctx1 tr1 (Flags_HopHeadersRemoval (flags p)) of
                    (Inl e, _, ctx2) \<Rightarrow>
                      (Returns (Some (PtrProxyError (proxyError0\<lparr>err := Some e\<rparr>))), ctx2, tr1)
                  | (Inr debugReq, _, ctx2) \<Rightarrow>
                      doFinish p env processedFilters
                        (setResponse (ctx2\<lparr>outgoingDebugRequest := Some debugReq\<rparr>)
                           (Some \<lparr>StatusCode = 0, rspHeader = [], rspBody = [], rspBodyErr = None\<rparr>)
                           (Flags_PreserveOriginal (flags p))) tr1)
               else
                 (case doBackend p env rt ctx1 tr1 of
                    (Inl e, ctx2, tr2) \<Rightarrow> (Returns (Some e), ctx2, tr2)
                  | (Inr rsp, ctx2, tr2) \<Rightarrow>
                      doFinish p env processedFilters
                        (setResponse ctx2 (Some rsp) (Flags_PreserveOriginal (flags p))) tr2)))"

text \<open>
  The recursive call of \<^verbatim>\<open>do\<close> is made on a context with the \<^verbatim>\<open>executionCounter\<close> of the
  caller's: the filters cannot write it. With the loop guard this bounds the recursion.
\<close>

lemma afterHook_private [simp]:
  "executionCounter (afterHook ctx c) = executionCounter ctx"
  "route (afterHook ctx c) = route ctx"
  by (simp_all add: afterHook_def)

lemma tryCatch_executionCounter [simp]:
  "executionCounter (tryCatch p hook ctx) = executionCounter ctx"
  by (simp add: tryCatch_def split: prod.splits option.splits)

lemma applyFiltersToRequest_loop_executionCounter:
  "applyFiltersToRequest_loop p env f fs ctx tr = (pf, ctx1, tr1) \<Longrightarrow>
   executionCounter ctx1 = executionCounter ctx"
  by (induction f arbitrary: fs ctx tr) (auto simp: Let_def split: if_splits)

lemma applyFiltersToRequest_executionCounter:
  "applyFiltersToRequest p env f ctx tr = (pf, ctx1, tr1) \<Longrightarrow>
   executionCounter ctx1 = executionCounter ctx"
  by (auto simp: applyFiltersToRequest_def split: if_splits
      dest: applyFiltersToRequest_loop_executionCounter)

lemma doRoute_cong [fundef_cong]:
  assumes "ctx = ctx'" "tr = tr'" "p = p'" "env = env'"
    and "\<And>c t. executionCounter c = executionCounter ctx' \<Longrightarrow> loop c t = loop' c t"
  shows "doRoute loop p env ctx tr = doRoute loop' p' env' ctx' tr'"
proof -
  have "loop (clone ctx1) tr1 = loop' (clone ctx1) tr1"
    if "applyFiltersToRequest p' env' (Filters rt)
          (applyRoute ctx' rt params (Flags_PreserveHost (flags p'))) tr' = (pf, ctx1, tr1)"
    for rt params pf ctx1 tr1
  proof -
    have "executionCounter ctx1 = executionCounter ctx'"
      using applyFiltersToRequest_executionCounter [OF that] by (simp add: applyRoute_def)
    then show ?thesis using assms(5) by (simp add: clone_def)
  qed
  then show ?thesis
    using assms(1-4) unfolding doRoute_def
    by (auto split: option.splits prod.splits)
qed

text \<open>
  \<^verbatim>\<open>do\<close>: the loop guard, the deferred function, the global rate limit of a root call,
  the increment of \<^verbatim>\<open>executionCounter\<close>, and the rest of the body, \<open>doRoute\<close>.
\<close>

function do :: "Proxy \<Rightarrow> Env \<Rightarrow> Context \<Rightarrow> event list \<Rightarrow> Outcome \<times> Context \<times> event list" where
  "do p env ctx tr =
     (if executionCounter ctx > maxLoops p then (Returns (Some errMaxLoopbacksReached), ctx, tr)
      else
        deferredLIFO
          (if \<not> wasExecuted ctx \<and> snd (limiters_Check p (request ctx)) > 0 then
             (Returns (Some (newRatelimitError env (fst (limiters_Check p (request ctx)))
                               (snd (limiters_Check p (request ctx))))), ctx, tr)
           else
             doRoute (do p env) p env (ctx\<lparr>executionCounter := executionCounter ctx + 1\<rparr>) tr))"
  by pat_completeness auto
termination
  by (relation "measure (\<lambda>(p, env, ctx, tr). nat (maxLoops p + 1 - executionCounter ctx))") auto

declare do.simps [simp del]

subsection \<open>Example values\<close>

text \<open>
  Concrete proxies, environments, routes and contexts, on which the theorems below are
  instantiated: a static route and a load-balanced one, a transport that answers, one
  whose dialer always fails, one whose round trip ends with a cancelled context, a
  circuit breaker that denies, filters that shunt in the two ways, and filters that push
  cleanup callbacks.
\<close>

definition exampleURL :: URL where
  "exampleURL = \<lparr>urlScheme = ''http'', urlHost = ''a.example'', urlUser = None, urlPath = ''/x''\<rparr>"

definition exampleRequest :: Request where
  "exampleRequest =
     \<lparr>Method = ''GET'', reqURL = exampleURL, reqHost = ''a.example'', reqHeader = [],
      reqBody = NoBody, ContentLength = 0, TLS = False, RemoteAddr = ''10.0.0.1:4711'',
      ContextErr = None, proxyURL = None\<rparr>"

definition emptyStateBag :: StateBag where
  "emptyStateBag =
     \<lparr>LIFOKey = None, RouteSettingsKey = None, BackendTimeout = None, BackendRatelimit = None,
      DynamicBackendURLKey = None, DynamicBackendHostKey = None,
      DynamicBackendSchemeKey = None, BackendIsProxyKey = False, fastCgiFilename = None,
      AccessLogEnabledKey = None\<rparr>"

definition exampleContext :: Context where
  "exampleContext =
     \<lparr>responseWriter = \<lparr>wHeader = [], wCalls = []\<rparr>,
      request = exampleRequest,
      response = None,
      route = None,
      stateBag = emptyStateBag,
      outgoingHost = [],
      executionCounter = 0,
      shunted = False,
      deprecatedShunted = False,
      successfulUpgrade = False,
      debugFilterPanics = [],
      outgoingDebugRequest = None,
      cancelBackendContext = False,
      pathParams = [],
      routeLookup = (\<lambda>r. None)\<rparr>"

definition exampleResponse :: Response where
  "exampleResponse = \<lparr>StatusCode = 200, rspHeader = [], rspBody = [''ok''], rspBodyErr = None\<rparr>"

definition exampleParams :: Params where
  "exampleParams =
     \<lparr>pFlags = 0, pPriorityRoutes = [], pExperimentalUpgrade = False,
      pAccessLogDisabled = False, pDefaultHTTPStatus = 0, pMaxLoopbacks = 0,
      pCircuitBreakers = None,
      pRateLimiters_Check = (\<lambda>r. (\<lparr>MaxHits = 0, TimeWindow = 0\<rparr>, 0)),
      pRateLimiters_AllowContext = (\<lambda>tr s k. True),
      pTransport = (\<lambda>tr r. RoundTripOk exampleResponse)\<rparr>"

definition exampleProxy :: Proxy where
  "exampleProxy = WithParams exampleParams"

definition exampleEnv :: Env where
  "exampleEnv =
     \<lparr>filter_Request = (\<lambda>f c. (c, None)),
      filter_Response = (\<lambda>f c. (c, None)),
      LBAlgorithm_Apply = (\<lambda>tr r rt sb. \<lparr>epScheme = ''http'', epHost = ''10.0.0.2:80''\<rparr>),
      isUpgradeRequest = (\<lambda>r. False),
      fastcgi_NewRoundTripper = (\<lambda>h f. None),
      fastcgi_RoundTrip = (\<lambda>tr r. RoundTripOk exampleResponse),
      dbgResponse = (\<lambda>w c e. w),
      ratelimit_Headers = (\<lambda>m t r. []),
      defaultResponse = (\<lambda>r. exampleResponse\<lparr>StatusCode := 404\<rparr>),
      url_ParseRequestURI = (\<lambda>s. None),
      url_Port = (\<lambda>u. []),
      net_SplitHostPort_ok = (\<lambda>s. True),
      http_NewRequest = (\<lambda>m u. Inr u),
      http_StatusText = (\<lambda>c. ''status''),
      strconv_Itoa = (\<lambda>n. ''7''),
      base64_EncodeToString = (\<lambda>s. s)\<rparr>"

definition exampleRoute :: Route where
  "exampleRoute =
     \<lparr>RouteId = ''r1'', BackendType = NetworkBackend, Shunt = False, rtScheme = ''http'',
      rtHost = ''b.internal'', Filters = []\<rparr>"

definition lbRoute :: Route where
  "lbRoute = exampleRoute\<lparr>RouteId := ''lb'', BackendType := LBBackend\<rparr>"

definition routedContext :: "Route \<Rightarrow> Context" where
  "routedContext rt = exampleContext\<lparr>routeLookup := (\<lambda>r. Some (rt, []))\<rparr>"

definition payloadContext :: Context where
  "payloadContext =
     (routedContext exampleRoute)
       \<lparr>request := exampleRequest\<lparr>reqBody := Reader ''payload'', ContentLength := 7\<rparr>\<rparr>"


definition dialError :: proxyError where
  "dialError = proxyError0\<lparr>err := Some ''connection refused'', code := - 1, dialingFailed := True\<rparr>"

definition failingProxy :: Proxy where
  "failingProxy =
     exampleProxy\<lparr>roundTripper := (\<lambda>tr r. RoundTripErr (DialerProxyError dialError) None)\<rparr>"

definition denyingProxy :: Proxy where
  "denyingProxy = exampleProxy\<lparr>breakers := Some (\<lambda>s. Some (\<lambda>tr. (False, False)))\<rparr>"

definition canceledProxy :: Proxy where
  "canceledProxy =
     exampleProxy\<lparr>roundTripper :=
       (\<lambda>tr r. RoundTripErr (NetError True True ''i/o timeout'') (Some Canceled))\<rparr>"

definition fPlain :: RouteFilter where
  "fPlain = \<lparr>Name = ''setPath'', filterRef = 0\<rparr>"

definition fMarkServed :: RouteFilter where
  "fMarkServed = \<lparr>Name = ''markServed'', filterRef = 1\<rparr>"

definition fServe :: RouteFilter where
  "fServe = \<lparr>Name = ''status'', filterRef = 2\<rparr>"

definition fLast :: RouteFilter where
  "fLast = \<lparr>Name = ''last'', filterRef = 3\<rparr>"

definition shuntEnv :: Env where
  "shuntEnv =
     exampleEnv\<lparr>filter_Request :=
       (\<lambda>f c. if f = 1 then (c\<lparr>deprecatedShunted := True\<rparr>, None)
              else if f = 2 then (c\<lparr>shunted := True, response := Some exampleResponse\<rparr>, None)
              else (c, None))\<rparr>"

definition shuntRoute :: Route where
  "shuntRoute = exampleRoute\<lparr>Filters := [fPlain, fServe, fLast]\<rparr>"

definition markServedRoute :: Route where
  "markServedRoute = exampleRoute\<lparr>Filters := [fPlain, fMarkServed, fLast]\<rparr>"

text \<open>
  Filters that push the cleanup callbacks 1 and 2, and a filter that rewrites the path of
  the request; a route with the two pushing filters, to a network backend and as a
  shunt; a loopback route whose request is routed to a shunt once its path is rewritten.
\<close>

definition fPush1 :: RouteFilter where
  "fPush1 = \<lparr>Name = ''lifo'', filterRef = 4\<rparr>"

definition fPush2 :: RouteFilter where
  "fPush2 = \<lparr>Name = ''lifoGroup'', filterRef = 5\<rparr>"

definition fToInner :: RouteFilter where
  "fToInner = \<lparr>Name = ''setPath'', filterRef = 6\<rparr>"

definition lifoEnv :: Env where
  "lifoEnv =
     exampleEnv\<lparr>filter_Request :=
       (\<lambda>f c. if f = 4 then (pushLIFO 1 c, None)
              else if f = 5 then (pushLIFO 2 c, None)
              else if f = 6 then
                (c\<lparr>request := (request c)\<lparr>reqURL := (reqURL (request c))\<lparr>urlPath := ''/inner''\<rparr>\<rparr>\<rparr>,
                 None)
              else (c, None))\<rparr>"

definition lifoRoute :: Route where
  "lifoRoute = exampleRoute\<lparr>RouteId := ''queued'', Filters := [fPush1, fPush2]\<rparr>"

definition lifoShuntRoute :: Route where
  "lifoShuntRoute = lifoRoute\<lparr>BackendType := ShuntBackend\<rparr>"

definition innerRoute :: Route where
  "innerRoute = exampleRoute\<lparr>RouteId := ''inner'', BackendType := ShuntBackend\<rparr>"

definition lifoLoopRoute :: Route where
  "lifoLoopRoute =
     exampleRoute\<lparr>RouteId := ''outer'', BackendType := LoopBackend,
                  Filters := [fPush1, fToInner]\<rparr>"

definition loopContext :: Context where
  "loopContext =
     exampleContext\<lparr>routeLookup :=
       (\<lambda>r. if urlPath (reqURL r) = ''/inner'' then Some (innerRoute, [])
            else Some (lifoLoopRoute, []))\<rparr>"

lemma exampleProxy_simps:
  "maxLoops exampleProxy = 9" "defaultHTTPStatus exampleProxy = 404" "flags exampleProxy = 0"
  "experimentalUpgrade exampleProxy = False" "breakers exampleProxy = None"
  "priorityRoutes exampleProxy = []"
  "limiters_Check exampleProxy = (\<lambda>r. (\<lparr>MaxHits = 0, TimeWindow = 0\<rparr>, 0))"
  "limiters_AllowContext exampleProxy = (\<lambda>tr s k. True)"
  "roundTripper exampleProxy = (\<lambda>tr r. RoundTripOk exampleResponse)"
  by (simp_all add: exampleProxy_def WithParams_def exampleParams_def DefaultMaxLoopbacks_def)

lemma failingProxy_simps:
  "maxLoops failingProxy = 9" "flags failingProxy = 0"
  "experimentalUpgrade failingProxy = False" "breakers failingProxy = None"
  "priorityRoutes failingProxy = []"
  "limiters_Check failingProxy = (\<lambda>r. (\<lparr>MaxHits = 0, TimeWindow = 0\<rparr>, 0))"
  "limiters_AllowContext failingProxy = (\<lambda>tr s k. True)"
  "roundTripper failingProxy = (\<lambda>tr r. RoundTripErr (DialerProxyError dialError) None)"
  by (simp_all add: failingProxy_def exampleProxy_simps)

lemma denyingProxy_simps:
  "maxLoops denyingProxy = 9" "flags denyingProxy = 0"
  "experimentalUpgrade denyingProxy = False"
  "breakers denyingProxy = Some (\<lambda>s. Some (\<lambda>tr. (False, False)))"
  "priorityRoutes denyingProxy = []"
  "limiters_Check denyingProxy = (\<lambda>r. (\<lparr>MaxHits = 0, TimeWindow = 0\<rparr>, 0))"
  "limiters_AllowContext denyingProxy = (\<lambda>tr s k. True)"
  by (simp_all add: denyingProxy_def exampleProxy_simps)

lemma canceledProxy_simps:
  "maxLoops canceledProxy = 9" "flags canceledProxy = 0"
  "experimentalUpgrade canceledProxy = False" "breakers canceledProxy = None"
  "priorityRoutes canceledProxy = []"
  "limiters_Check canceledProxy = (\<lambda>r. (\<lparr>MaxHits = 0, TimeWindow = 0\<rparr>, 0))"
  "limiters_AllowContext canceledProxy = (\<lambda>tr s k. True)"
  "roundTripper canceledProxy =
     (\<lambda>tr r. RoundTripErr (NetError True True ''i/o timeout'') (Some Canceled))"
  by (simp_all add: canceledProxy_def exampleProxy_simps)

lemma Flags_zero:
  "\<not> Flags_Debug 0" "\<not> Flags_HopHeadersRemoval 0" "\<not> Flags_PreserveHost 0"
  "\<not> Flags_PreserveOriginal 0"
  by (simp_all add: Flags_Debug_def Flags_HopHeadersRemoval_def Flags_PreserveHost_def
      Flags_PreserveOriginal_def)

lemmas eval_defs = doRoute_def lookupRoute_def applyRoute_def applyFiltersToRequest_def
  applyFiltersToResponse_def doBackend_def checkBreaker_def makeBackendRequest_def mapRequest_def
  rejectBackend_def getRoundTripper_def RoundTrip_def roundTripFailed_def retryable_def
  withBackendTimeout_def breakerSettings_def deferredLIFO_def pendingLIFO_def doFinish_def
  setResponse_def wasExecuted_def clone_def sharedWith_def ensureDefaultResponse_def
  tryCatch_def afterHook_def setRequestURLForLoadBalancedBackend_def cloneHeader_def
  cloneHeaderExcluding_def forwardToProxy_def errorMessage_def Let_def

lemmas example_defs = routedContext_def exampleContext_def exampleEnv_def lbRoute_def
  exampleRoute_def exampleRequest_def exampleURL_def exampleResponse_def emptyStateBag_def
  dialError_def proxyError0_def shuntEnv_def fPlain_def fMarkServed_def fServe_def fLast_def

lemmas example_defs2 = example_defs shuntRoute_def markServedRoute_def

lemmas lifo_defs = lifoEnv_def lifoRoute_def lifoShuntRoute_def fPush1_def fPush2_def
  pushLIFO_def fToInner_def innerRoute_def lifoLoopRoute_def loopContext_def

lemma canonical_keys:
  "CanonicalHeaderKey ''Server'' = ''Server''"
  "CanonicalHeaderKey ''Content-Length'' = ''Content-Length''"
  "CanonicalHeaderKey ''Content-Type'' = ''Content-Type''"
  "CanonicalHeaderKey ''X-Content-Type-Options'' = ''X-Content-Type-Options''"
  "CanonicalHeaderKey ''X-Circuit-Open'' = ''X-Circuit-Open''"
  "CanonicalHeaderKey ''Authorization'' = ''Authorization''"
  "CanonicalHeaderKey ''User-Agent'' = ''User-Agent''"
  by code_simp+



subsection \<open>Predicates on events and runs\<close>

text \<open>
  The events of the backend branch of \<^verbatim>\<open>do\<close>: neither a filter hook nor a pending LIFO
  callback.
\<close>

fun backendEvent :: "event \<Rightarrow> bool" where
  "backendEvent (EvFilterRequest _) = False"
| "backendEvent (EvFilterResponse _) = False"
| "backendEvent (EvLIFODone _) = False"
| "backendEvent _ = True"

fun isRetry :: "event \<Rightarrow> bool" where
  "isRetry (EvRetry _) = True"
| "isRetry _ = False"

fun isLIFODone :: "event \<Rightarrow> bool" where
  "isLIFODone (EvLIFODone _) = True"
| "isLIFODone _ = False"

text \<open>
  A run of \<^verbatim>\<open>do\<close> on \<open>ctx\<close> reaches the backend branch: the loop guard and the global
  rate limit let it pass, the lookup finds the route \<open>rt\<close>, the request filters leave the
  context \<open>ctx1\<close> and the events \<open>tr1\<close> with no shunt signalled, the route is neither a
  shunt nor a loopback, and the proxy is not in debug mode.
\<close>

definition reachesBackend ::
  "Proxy \<Rightarrow> Env \<Rightarrow> Context \<Rightarrow> event list \<Rightarrow> Route \<Rightarrow> (string \<times> string) list
     \<Rightarrow> RouteFilter list \<Rightarrow> Context \<Rightarrow> event list \<Rightarrow> bool" where
  "reachesBackend p env ctx tr rt params pf ctx1 tr1 =
     (executionCounter ctx \<le> maxLoops p \<and>
      (wasExecuted ctx \<or> snd (limiters_Check p (request ctx)) \<le> 0) \<and>
      lookupRoute p (ctx\<lparr>executionCounter := executionCounter ctx + 1\<rparr>) = Some (rt, params) \<and>
      applyFiltersToRequest p env (Filters rt)
        (applyRoute (ctx\<lparr>executionCounter := executionCounter ctx + 1\<rparr>) rt params
           (Flags_PreserveHost (flags p))) tr = (pf, ctx1, tr1) \<and>
      \<not> deprecatedShunted ctx1 \<and> \<not> shunted ctx1 \<and> \<not> Shunt rt \<and>
      BackendType rt \<noteq> ShuntBackend \<and> BackendType rt \<noteq> LoopBackend \<and>
      \<not> Flags_Debug (flags p))"

subsection \<open>Properties of the access-log decision\<close>

lemma wrap64_id: "- (2 ^ 63) \<le> x \<Longrightarrow> x < 2 ^ 63 \<Longrightarrow> wrap64 x = x"
  unfolding wrap64_def by (simp add: mod_pos_pos_trivial)

lemma rangePrefixes_ex:
  "rangePrefixes statusCode ps match =
     (if ps = [] then match else list_ex (prefixMatch statusCode) ps)"
  by (induction ps arbitrary: match) (auto simp: Let_def)

lemma prefixMatch_digit1:
  assumes "0 \<le> p" "p < 10"
  shows "prefixMatch s p = (p * 100 \<le> s \<and> s < (p + 1) * 100)"
proof -
  have "wrap64 (p * 100) = p * 100" "wrap64 ((p + 1) * 100) = (p + 1) * 100"
    using assms by (simp_all add: wrap64_id)
  then show ?thesis using assms by (simp add: prefixMatch_def)
qed

lemma prefixMatch_digit2:
  assumes "10 \<le> p" "p < 100"
  shows "prefixMatch s p = (p * 10 \<le> s \<and> s < (p + 1) * 10)"
proof -
  have "wrap64 (p * 10) = p * 10" "wrap64 ((p + 1) * 10) = (p + 1) * 10"
    using assms by (simp_all add: wrap64_id)
  then show ?thesis using assms by (simp add: prefixMatch_def)
qed

lemma prefixMatch_digit3: "100 \<le> p \<Longrightarrow> prefixMatch s p = (s = p)"
  by (simp add: prefixMatch_def)

text \<open>
  C8. A status matches a single-digit prefix \<open>p\<close> iff \<open>p * 100 \<le> status < (p + 1) * 100\<close>,
  a two-digit prefix iff \<open>p * 10 \<le> status < (p + 1) * 10\<close>, a three-digit prefix iff it
  is equal to it. With an empty prefix list the enable flag decides; otherwise the
  request is logged iff (some prefix matched) = enable. For prefixes \<open>[2]\<close> and
  enable = true, 201 is logged and 500 is not; for prefixes \<open>[50]\<close> and enable = false,
  500 is not logged and 404 is.
\<close>

theorem shouldLog_decision:
  "(0 \<le> p \<and> p < 10 \<longrightarrow> prefixMatch s p = (p * 100 \<le> s \<and> s < (p + 1) * 100)) \<and>
   (10 \<le> p \<and> p < 100 \<longrightarrow> prefixMatch s p = (p * 10 \<le> s \<and> s < (p + 1) * 10)) \<and>
   (100 \<le> p \<and> p < 1000 \<longrightarrow> prefixMatch s p = (s = p)) \<and>
   (Prefixes f = [] \<longrightarrow> shouldLog s f = Enable f) \<and>
   (Prefixes f \<noteq> [] \<longrightarrow>
      shouldLog s f = (list_ex (prefixMatch s) (Prefixes f) = Enable f)) \<and>
   shouldLog 201 \<lparr>Enable = True, Prefixes = [2]\<rparr> \<and>
   \<not> shouldLog 500 \<lparr>Enable = True, Prefixes = [2]\<rparr> \<and>
   \<not> shouldLog 500 \<lparr>Enable = False, Prefixes = [50]\<rparr> \<and>
   shouldLog 404 \<lparr>Enable = False, Prefixes = [50]\<rparr>"
proof -
  have ex: "shouldLog 201 \<lparr>Enable = True, Prefixes = [2]\<rparr>"
    "\<not> shouldLog 500 \<lparr>Enable = True, Prefixes = [2]\<rparr>"
    "\<not> shouldLog 500 \<lparr>Enable = False, Prefixes = [50]\<rparr>"
    "shouldLog 404 \<lparr>Enable = False, Prefixes = [50]\<rparr>"
    by (simp_all add: shouldLog_def prefixMatch_def wrap64_def)
  have dec: "Prefixes f \<noteq> [] \<longrightarrow>
      shouldLog s f = (list_ex (prefixMatch s) (Prefixes f) = Enable f)"
    by (simp add: shouldLog_def rangePrefixes_ex)
  have emp: "Prefixes f = [] \<longrightarrow> shouldLog s f = Enable f"
    by (simp add: shouldLog_def)
  show ?thesis
    using ex dec emp prefixMatch_digit1 [of p s] prefixMatch_digit2 [of p s]
      prefixMatch_digit3 [of p s]
    by blast
qed

theorem shouldLog_decision_witness:
  "prefixMatch 204 2 \<and> \<not> prefixMatch 304 2 \<and> prefixMatch 404 40 \<and> \<not> prefixMatch 410 40 \<and>
   prefixMatch 404 404 \<and> \<not> prefixMatch 405 404 \<and>
   shouldLog 302 \<lparr>Enable = True, Prefixes = []\<rparr> \<and>
   shouldLog 302 \<lparr>Enable = True, Prefixes = [2, 30]\<rparr> \<and>
   \<not> shouldLog 302 \<lparr>Enable = False, Prefixes = [2, 30]\<rparr>"
  using shouldLog_decision [of 2 204 "\<lparr>Enable = True, Prefixes = []\<rparr>"]
    shouldLog_decision [of 2 304 "\<lparr>Enable = True, Prefixes = [2, 30]\<rparr>"]
    shouldLog_decision [of 40 404 "\<lparr>Enable = False, Prefixes = [2, 30]\<rparr>"]
    shouldLog_decision [of 40 410 "\<lparr>Enable = True, Prefixes = []\<rparr>"]
    shouldLog_decision [of 404 404 "\<lparr>Enable = True, Prefixes = []\<rparr>"]
    shouldLog_decision [of 404 405 "\<lparr>Enable = True, Prefixes = []\<rparr>"]
    shouldLog_decision [of 2 302 "\<lparr>Enable = True, Prefixes = []\<rparr>"]
    shouldLog_decision [of 2 302 "\<lparr>Enable = True, Prefixes = [2, 30]\<rparr>"]
    shouldLog_decision [of 2 302 "\<lparr>Enable = False, Prefixes = [2, 30]\<rparr>"]
  by (simp add: prefixMatch_def wrap64_def)

subsection \<open>Properties of the error responder\<close>

text \<open>
  C4. The status the error responder maps an error to: the configured default status
  for the route-lookup failure (404 where none is configured), 502 for a proxy error
  with code -1, the code of a proxy error with another nonzero code, 500 for every other
  error. For a proxy error with \<^verbatim>\<open>handled\<close> set the responder leaves the context, and with
  it the response writer, as it is; otherwise, outside debug mode, it writes the status
  it has mapped the error to.
\<close>

theorem errorResponse_status:
  "errorResponse_code p errRouteLookupFailed = defaultHTTPStatus p \<and>
   (pDefaultHTTPStatus prm < 100 \<or> 511 < pDefaultHTTPStatus prm \<longrightarrow>
      defaultHTTPStatus (WithParams prm) = 404) \<and>
   (e \<noteq> errRouteLookupFailed \<and> asProxyError e = Some perr \<and> code perr = - 1 \<longrightarrow>
      errorResponse_code p e = 502) \<and>
   (e \<noteq> errRouteLookupFailed \<and> asProxyError e = Some perr \<and> code perr \<noteq> - 1 \<and>
    code perr \<noteq> 0 \<longrightarrow>
      errorResponse_code p e = code perr) \<and>
   (e \<noteq> errRouteLookupFailed \<and> asProxyError e = Some perr \<and> code perr = 0 \<longrightarrow>
      errorResponse_code p e = 500) \<and>
   (asProxyError e = None \<longrightarrow> errorResponse_code p e = 500) \<and>
   (asProxyError e = Some perr \<and> handled perr \<longrightarrow> errorResponse p env ctx e = ctx) \<and>
   (\<not> errorHandled e \<and> \<not> Flags_Debug (flags p) \<longrightarrow>
      wCalls (responseWriter (errorResponse p env ctx e)) =
        wCalls (responseWriter ctx) @
          [WriteHeader (errorResponse_code p e),
           Write (http_StatusText env (errorResponse_code p e) @ [CHR 0x0A])])"
proof -
  have a: "asProxyError e = None \<longrightarrow> errorResponse_code p e = 500"
    by (cases e) (simp_all add: errorResponse_code_def errRouteLookupFailed_def)
  have b: "\<not> errorHandled e \<and> \<not> Flags_Debug (flags p) \<longrightarrow>
      wCalls (responseWriter (errorResponse p env ctx e)) =
        wCalls (responseWriter ctx) @
          [WriteHeader (errorResponse_code p e),
           Write (http_StatusText env (errorResponse_code p e) @ [CHR 0x0A])]"
    by (simp add: errorResponse_def sendError_def Let_def split: option.splits)
  show ?thesis
    using a b
    by (simp add: errorResponse_code_def errorResponse_def errorHandled_def WithParams_def
        errRouteLookupFailed_def)
qed

theorem errorResponse_status_witness:
  "errorResponse_code exampleProxy errRouteLookupFailed = 404 \<and>
   errorResponse_code exampleProxy
     (PtrProxyError (proxyError0\<lparr>code := - 1, dialingFailed := True\<rparr>)) = 502 \<and>
   errorResponse_code exampleProxy (PtrProxyError (proxyError0\<lparr>code := 504\<rparr>)) = 504 \<and>
   errorResponse_code exampleProxy (PtrProxyError proxyError0) = 500 \<and>
   errorResponse_code exampleProxy errMaxLoopbacksReached = 500 \<and>
   errorResponse exampleProxy exampleEnv exampleContext
     (PtrProxyError (proxyError0\<lparr>handled := True\<rparr>)) = exampleContext \<and>
   wCalls (responseWriter
     (errorResponse exampleProxy exampleEnv exampleContext (PtrProxyError proxyError0)))
     = [WriteHeader 500, Write (''status'' @ [CHR 0x0A])]"
  using errorResponse_status [of exampleProxy exampleParams errRouteLookupFailed proxyError0
      exampleEnv exampleContext]
    errorResponse_status [of exampleProxy exampleParams
      "PtrProxyError (proxyError0\<lparr>code := - 1, dialingFailed := True\<rparr>)"
      "proxyError0\<lparr>code := - 1, dialingFailed := True\<rparr>" exampleEnv exampleContext]
    errorResponse_status [of exampleProxy exampleParams
      "PtrProxyError (proxyError0\<lparr>code := 504\<rparr>)"
      "proxyError0\<lparr>code := 504\<rparr>" exampleEnv exampleContext]
    errorResponse_status [of exampleProxy exampleParams "PtrProxyError proxyError0"
      "proxyError0" exampleEnv exampleContext]
    errorResponse_status [of exampleProxy exampleParams errMaxLoopbacksReached
      "proxyError0" exampleEnv exampleContext]
    errorResponse_status [of exampleProxy exampleParams
      "PtrProxyError (proxyError0\<lparr>handled := True\<rparr>)"
      "proxyError0\<lparr>handled := True\<rparr>" exampleEnv exampleContext]
  by (simp add: exampleProxy_simps Flags_zero errRouteLookupFailed_def
      errMaxLoopbacksReached_def proxyError0_def errorHandled_def exampleEnv_def
      exampleContext_def errorResponse_code_def)

subsection \<open>Properties of the response streamer\<close>

lemma copyStream_calls:
  "wCalls (copyStream w bs) = wCalls w @ concat (map (\<lambda>b. [Write b, Flush]) bs)"
  by (induction bs arbitrary: w) simp_all

text \<open>
  C10. Outside debug mode, the streamer writes the status 499 whenever the context of the
  inbound request reports an error when streaming starts, whichever error it is (so 499
  and not 504 for an expired deadline), and the status of the response otherwise.
\<close>

theorem serveResponse_context_error:
  assumes "\<not> Flags_Debug (flags p)" and "response ctx = Some rsp"
  shows "\<exists>ctx'. serveResponse p env ctx = Some ctx' \<and>
     wCalls (responseWriter ctx') =
       wCalls (responseWriter ctx) @
         [WriteHeader (if ContextErr (request ctx) \<noteq> None then 499 else StatusCode rsp),
          Flush] @
         concat (map (\<lambda>b. [Write b, Flush]) (rspBody rsp)) \<and>
     map_option StatusCode (response ctx') =
       Some (if ContextErr (request ctx) \<noteq> None then 499 else StatusCode rsp)"
  using assms by (simp add: serveResponse_def Let_def copyStream_calls)

theorem serveResponse_context_error_witness:
  "\<exists>ctx'. serveResponse exampleProxy exampleEnv
       (exampleContext\<lparr>request := exampleRequest\<lparr>ContextErr := Some DeadlineExceeded\<rparr>,
                        response := Some (exampleResponse\<lparr>StatusCode := 504\<rparr>)\<rparr>) = Some ctx' \<and>
     wCalls (responseWriter ctx') = [WriteHeader 499, Flush, Write ''ok'', Flush] \<and>
     map_option StatusCode (response ctx') = Some 499"
  using serveResponse_context_error [of exampleProxy
      "exampleContext\<lparr>request := exampleRequest\<lparr>ContextErr := Some DeadlineExceeded\<rparr>,
                        response := Some (exampleResponse\<lparr>StatusCode := 504\<rparr>)\<rparr>"
      "exampleResponse\<lparr>StatusCode := 504\<rparr>" exampleEnv]
  by (simp add: exampleProxy_simps Flags_zero exampleContext_def exampleResponse_def)

subsection \<open>Properties of the header copy\<close>






subsection \<open>Properties of the backend request\<close>

lemma makeBackendRequest_trace:
  "makeBackendRequest p env rt ctx tr = (r, ctx', tr') \<Longrightarrow>
   tr' = tr \<or> (\<exists>req. tr' = tr @ [EvUpgrade req]) \<or> (\<exists>req. tr' = tr @ [EvRoundTrip req])"
  unfolding makeBackendRequest_def
  by (auto split: prod.splits sum.splits option.splits if_splits RoundTripResult.splits)

lemma makeBackendRequest_events:
  assumes "makeBackendRequest p env rt ctx tr = (r, ctx', tr')"
  shows "\<exists>new. tr' = tr @ new \<and> list_all backendEvent new"
  using makeBackendRequest_trace [OF assms] by auto

lemma makeBackendRequest_no_retry:
  assumes "makeBackendRequest p env rt ctx tr = (r, ctx', tr')"
  shows "\<exists>new. tr' = tr @ new \<and> filter isRetry new = []"
  using makeBackendRequest_trace [OF assms] by auto

text \<open>
  C5. When the round trip of \<^verbatim>\<open>makeBackendRequest\<close> fails, the code of the proxy error is
  499 for a cancelled request context and 504 for one whose deadline is exceeded;
  otherwise a proxy error of the dialer passes through with its code and flags, a
  \<^verbatim>\<open>net.Error\<close> gives 504 with a timeout and 503 without, and any other error gives the
  code 0, which the error responder maps to 500.
\<close>

theorem roundTrip_error_code:
  assumes "mapRequest env rt ctx tr (Flags_HopHeadersRemoval (flags p)) = (Inr req, ep, ctx1)"
    and "rejectBackend p ctx1 req tr = None"
    and "\<not> (experimentalUpgrade p \<and> isUpgradeRequest env req)"
    and "getRoundTripper env ctx1 req = Inr (t, req1)"
    and "RoundTrip p env t tr req1 = RoundTripErr e cerr"
  shows "\<exists>perr. makeBackendRequest p env rt ctx tr = (Inl perr, ctx1, tr @ [EvRoundTrip req1]) \<and>
     (cerr = Some Canceled \<longrightarrow> code perr = 499) \<and>
     (cerr = Some DeadlineExceeded \<longrightarrow> code perr = 504) \<and>
     (cerr \<noteq> Some Canceled \<and> cerr \<noteq> Some DeadlineExceeded \<longrightarrow>
        (\<forall>pe. e = DialerProxyError pe \<longrightarrow>
           code perr = code pe \<and> dialingFailed perr = dialingFailed pe \<and>
           handled perr = handled pe \<and> additionalHeader perr = additionalHeader pe) \<and>
        (\<forall>tmp msg. e = NetError True tmp msg \<longrightarrow> code perr = 504) \<and>
        (\<forall>tmp msg. e = NetError False tmp msg \<longrightarrow> code perr = 503) \<and>
        (\<forall>msg. e = PlainError msg \<longrightarrow>
           code perr = 0 \<and> errorResponse_code p (PtrProxyError perr) = 500))"
  using assms
  by (cases e)
     (auto simp: makeBackendRequest_def roundTripFailed_def proxyError0_def
        errorResponse_code_def errRouteLookupFailed_def)

theorem roundTrip_error_code_witness:
  "(\<exists>perr. fst (makeBackendRequest canceledProxy exampleEnv exampleRoute
       (applyRoute ((routedContext exampleRoute)\<lparr>executionCounter := 1\<rparr>) exampleRoute [] False)
       []) = Inl perr \<and> code perr = 499) \<and>
   (\<exists>perr. fst (makeBackendRequest failingProxy exampleEnv exampleRoute
       (applyRoute ((routedContext exampleRoute)\<lparr>executionCounter := 1\<rparr>) exampleRoute [] False)
       []) = Inl perr \<and> code perr = - 1 \<and> dialingFailed perr)"
proof -
  let ?c = "applyRoute ((routedContext exampleRoute)\<lparr>executionCounter := 1\<rparr>) exampleRoute [] False"
  define MR where "MR = mapRequest exampleEnv exampleRoute ?c [] False"
  have "\<exists>req. fst MR = Inr req \<and> urlScheme (reqURL req) = ''http''"
    and bag: "BackendRatelimit (stateBag (snd (snd MR))) = None"
    by (simp_all add: MR_def eval_defs example_defs)
  then obtain req where req: "fst MR = Inr req" "urlScheme (reqURL req) = ''http''" by blast
  have MR: "MR = (Inr req, fst (snd MR), snd (snd MR))"
    using req(1) by (simp add: prod_eq_iff)
  have m: "mapRequest exampleEnv exampleRoute ?c [] (Flags_HopHeadersRemoval (flags canceledProxy))
      = (Inr req, fst (snd MR), snd (snd MR))"
    "mapRequest exampleEnv exampleRoute ?c [] (Flags_HopHeadersRemoval (flags failingProxy))
      = (Inr req, fst (snd MR), snd (snd MR))"
    using MR by (simp_all add: canceledProxy_simps failingProxy_simps Flags_zero MR_def)
  have r: "rejectBackend canceledProxy (snd (snd MR)) req [] = None"
    "rejectBackend failingProxy (snd (snd MR)) req [] = None"
    by (simp_all add: rejectBackend_def bag)
  have u: "\<not> (experimentalUpgrade canceledProxy \<and> isUpgradeRequest exampleEnv req)"
    "\<not> (experimentalUpgrade failingProxy \<and> isUpgradeRequest exampleEnv req)"
    by (simp_all add: canceledProxy_simps failingProxy_simps)
  have g: "getRoundTripper exampleEnv (snd (snd MR)) req = Inr (ProxyTransport, req)"
    by (simp add: getRoundTripper_def req(2))
  have t: "RoundTrip canceledProxy exampleEnv ProxyTransport [] req =
        RoundTripErr (NetError True True ''i/o timeout'') (Some Canceled)"
    "RoundTrip failingProxy exampleEnv ProxyTransport [] req =
        RoundTripErr (DialerProxyError dialError) None"
    by (simp_all add: RoundTrip_def canceledProxy_simps failingProxy_simps)
  from roundTrip_error_code [OF m(1) r(1) u(1) g t(1)]
  have a: "\<exists>perr. fst (makeBackendRequest canceledProxy exampleEnv exampleRoute ?c []) = Inl perr \<and>
      code perr = 499"
    by auto
  from roundTrip_error_code [OF m(2) r(2) u(2) g t(2)]
  have b: "\<exists>perr. fst (makeBackendRequest failingProxy exampleEnv exampleRoute ?c []) = Inl perr \<and>
      code perr = - 1 \<and> dialingFailed perr"
    by (auto simp: dialError_def proxyError0_def)
  from a b show ?thesis by blast
qed

subsection \<open>The events of the filter runner and of the pipeline\<close>

lemma applyFiltersToRequest_loop_trace:
  "applyFiltersToRequest_loop p env f fs ctx tr = (pf, ctx1, tr1) \<Longrightarrow>
   \<exists>k \<le> length f. pf = fs @ take k f \<and> tr1 = tr @ map EvFilterRequest (take k f) \<and>
     (f \<noteq> [] \<longrightarrow> 0 < k) \<and> (k < length f \<longrightarrow> deprecatedShunted ctx1 \<or> shunted ctx1)"
proof (induction f arbitrary: fs ctx tr)
  case Nil
  then show ?case by simp
next
  case (Cons fi rest)
  let ?c = "tryCatch p (filter_Request env (filterRef fi)) ctx"
  show ?case
  proof (cases "deprecatedShunted ?c \<or> shunted ?c")
    case True
    with Cons.prems have "pf = fs @ [fi]" "ctx1 = ?c" "tr1 = tr @ [EvFilterRequest fi]"
      by (auto simp: Let_def)
    with True show ?thesis by (intro exI [of _ 1]) auto
  next
    case False
    with Cons.prems have
      "applyFiltersToRequest_loop p env rest (fs @ [fi]) ?c (tr @ [EvFilterRequest fi]) = (pf, ctx1, tr1)"
      by (auto simp: Let_def)
    from Cons.IH [OF this] obtain k where k: "k \<le> length rest" "pf = (fs @ [fi]) @ take k rest"
      "tr1 = (tr @ [EvFilterRequest fi]) @ map EvFilterRequest (take k rest)"
      "k < length rest \<longrightarrow> deprecatedShunted ctx1 \<or> shunted ctx1"
      by blast
    then show ?thesis by (intro exI [of _ "Suc k"]) auto
  qed
qed

lemma applyFiltersToRequest_trace:
  assumes "applyFiltersToRequest p env f ctx tr = (pf, ctx1, tr1)"
  shows "\<exists>k \<le> length f. pf = take k f \<and> tr1 = tr @ map EvFilterRequest pf \<and>
     (f \<noteq> [] \<longrightarrow> 0 < k) \<and> (k < length f \<longrightarrow> deprecatedShunted ctx1 \<or> shunted ctx1)"
proof (cases "f = []")
  case True
  with assms show ?thesis by (simp add: applyFiltersToRequest_def)
next
  case False
  with assms have "applyFiltersToRequest_loop p env f [] ctx tr = (pf, ctx1, tr1)"
    by (simp add: applyFiltersToRequest_def)
  from applyFiltersToRequest_loop_trace [OF this] show ?thesis by auto
qed

lemma applyFiltersToRequest_loop_stop:
  "f1 \<noteq> [] \<Longrightarrow> applyFiltersToRequest_loop p env f1 fs ctx tr = (pf, c, t) \<Longrightarrow>
   deprecatedShunted c \<or> shunted c \<Longrightarrow>
   applyFiltersToRequest_loop p env (f1 @ f2) fs ctx tr = (pf, c, t)"
proof (induction f1 arbitrary: fs ctx tr)
  case Nil
  then show ?case by simp
next
  case (Cons fi rest)
  let ?c = "tryCatch p (filter_Request env (filterRef fi)) ctx"
  show ?case
  proof (cases "deprecatedShunted ?c \<or> shunted ?c")
    case True
    with Cons.prems show ?thesis by (auto simp: Let_def)
  next
    case False
    with Cons.prems(2) have run:
      "applyFiltersToRequest_loop p env rest (fs @ [fi]) ?c (tr @ [EvFilterRequest fi]) = (pf, c, t)"
      by (auto simp: Let_def)
    have "rest \<noteq> []"
    proof
      assume "rest = []"
      with run have "c = ?c" by simp
      with False Cons.prems(3) show False by simp
    qed
    from Cons.IH [OF this run Cons.prems(3)] False show ?thesis by (auto simp: Let_def)
  qed
qed

lemma applyFiltersToRequest_stop:
  assumes "k < length f"
    and "applyFiltersToRequest p env (take (Suc k) f) ctx tr = (pf, c, t)"
    and "deprecatedShunted c \<or> shunted c"
  shows "applyFiltersToRequest p env f ctx tr = (pf, c, t)"
proof -
  from assms(1) have ne: "take (Suc k) f \<noteq> []" "f \<noteq> []" by auto
  from assms(1) have "length (take (Suc k) f) \<noteq> 0" by simp
  with assms(2) have "applyFiltersToRequest_loop p env (take (Suc k) f) [] ctx tr = (pf, c, t)"
    unfolding applyFiltersToRequest_def by (simp only: if_False)
  from applyFiltersToRequest_loop_stop [OF ne(1) this assms(3), of "drop (Suc k) f"]
  show ?thesis using ne(2) by (simp add: applyFiltersToRequest_def)
qed

lemma applyFiltersToResponse_loop_trace:
  "applyFiltersToResponse_loop p env fs is ctx tr = (ctx', tr') \<Longrightarrow>
   tr' = tr @ map (\<lambda>i. EvFilterResponse (fs ! (length fs - 1 - i))) is"
proof (induction "is" arbitrary: ctx tr)
  case Nil
  then show ?case by simp
next
  case (Cons i rest)
  let ?fi = "fs ! (length fs - 1 - i)"
  from Cons.prems have "applyFiltersToResponse_loop p env fs rest
      (tryCatch p (filter_Response env (filterRef ?fi)) ctx) (tr @ [EvFilterResponse ?fi]) = (ctx', tr')"
    by (simp add: Let_def)
  from Cons.IH [OF this] show ?case by simp
qed

lemma rev_by_index: "map (\<lambda>i. fs ! (length fs - 1 - i)) [0..<length fs] = rev fs"
  by (rule nth_equalityI) (simp_all add: rev_nth)

lemma applyFiltersToResponse_trace:
  assumes "applyFiltersToResponse p env fs ctx tr = (ctx', tr')"
  shows "tr' = tr @ map EvFilterResponse (rev fs)"
proof -
  have "tr' = tr @ map EvFilterResponse (map (\<lambda>i. fs ! (length fs - 1 - i)) [0..<length fs])"
    using applyFiltersToResponse_loop_trace [OF assms [unfolded applyFiltersToResponse_def]]
    by (simp add: comp_def)
  then show ?thesis by (simp only: rev_by_index)
qed

lemma doBackend_events:
  assumes "doBackend p env rt ctx tr = (r, ctx', tr')"
  shows "\<exists>new. tr' = tr @ new \<and> list_all backendEvent new"
  using assms unfolding doBackend_def
  by (auto simp: Let_def split: prod.splits sum.splits if_splits
      dest!: makeBackendRequest_events)

lemma doFinish_trace:
  assumes "doFinish p env pf ctx tr = (out, ctx', tr')"
  shows "(out = Returns None \<and> tr' = tr @ map EvFilterResponse (rev pf)) \<or>
         ((\<exists>m. out = Panics m) \<and> tr' = tr)"
  using assms unfolding doFinish_def
  by (auto split: option.splits prod.splits dest: applyFiltersToResponse_trace)

lemma doFinish_Returns:
  "response ctx = Some rsp \<Longrightarrow> fst (doFinish p env pf ctx tr) = Returns None"
  by (simp add: doFinish_def split: prod.splits)

lemma deferredLIFO_trace:
  "deferredLIFO (out, ctx, tr) = (out, ctx, tr @ map EvLIFODone (pendingLIFO ctx))"
  by (simp add: deferredLIFO_def)

lemma fst_deferredLIFO: "fst (deferredLIFO r) = fst r"
  by (cases r) (simp add: deferredLIFO_def)

lemma doRoute_extends:
  assumes "doRoute loop p env ctx tr = (out, ctx', tr')"
    and "\<And>c t out1 c1 t1. executionCounter c = executionCounter ctx \<Longrightarrow>
           loop c t = (out1, c1, t1) \<Longrightarrow> \<exists>n. t1 = t @ n"
  shows "\<exists>n. tr' = tr @ n"
proof (cases "lookupRoute p ctx")
  case None
  with assms(1) show ?thesis by (simp add: doRoute_def)
next
  case (Some a)
  obtain rt params where a: "a = (rt, params)" by (cases a)
  obtain pf ctx1 tr1 where f: "applyFiltersToRequest p env (Filters rt)
      (applyRoute ctx rt params (Flags_PreserveHost (flags p))) tr = (pf, ctx1, tr1)"
    by (metis prod.exhaust)
  from applyFiltersToRequest_trace [OF f] have t1: "\<exists>n. tr1 = tr @ n" by blast
  have ec: "executionCounter (clone ctx1) = executionCounter ctx"
    using applyFiltersToRequest_executionCounter [OF f] by (simp add: clone_def applyRoute_def)
  obtain lo lc lt where l: "loop (clone ctx1) tr1 = (lo, lc, lt)"
    by (metis prod.exhaust)
  from assms(2) [OF ec l] obtain n0 where n0: "lt = tr1 @ n0" ..
  have "\<exists>n. tr' = tr1 @ n"
    using assms(1) Some a f l n0
    unfolding doRoute_def
    by (auto split: if_splits prod.splits sum.splits Outcome.splits option.splits
        dest!: doFinish_trace doBackend_events)
  with t1 show ?thesis by auto
qed

lemma do_extends: "do p env ctx tr = (out, ctx', tr') \<Longrightarrow> \<exists>n. tr' = tr @ n"
proof (induction p env ctx tr arbitrary: out ctx' tr' rule: do.induct)
  case (1 p env ctx tr)
  show ?case
  proof (cases "maxLoops p < executionCounter ctx")
    case True
    with "1.prems" show ?thesis by (simp add: do.simps)
  next
    case guard: False
    show ?thesis
    proof (cases "\<not> wasExecuted ctx \<and> 0 < snd (limiters_Check p (request ctx))")
      case True
      with guard "1.prems" show ?thesis by (auto simp: do.simps deferredLIFO_def)
    next
      case False
      obtain out1 c1 t1 where r: "doRoute (do p env) p env
          (ctx\<lparr>executionCounter := executionCounter ctx + 1\<rparr>) tr = (out1, c1, t1)"
        by (metis prod.exhaust)
      have "\<exists>n. t1 = tr @ n"
        by (rule doRoute_extends [OF r]) (rule "1.IH" [OF guard False])
      with guard False r "1.prems" show ?thesis
        by (auto simp: do.simps [of p env ctx tr] deferredLIFO_def)
    qed
  qed
qed

lemma do_route_shape:
  assumes d: "do p env ctx tr = (out, ctx', tr')"
    and g: "executionCounter ctx \<le> maxLoops p"
    and l: "wasExecuted ctx \<or> snd (limiters_Check p (request ctx)) \<le> 0"
    and r: "lookupRoute p (ctx\<lparr>executionCounter := executionCounter ctx + 1\<rparr>) = Some (rt, params)"
    and f: "applyFiltersToRequest p env (Filters rt)
        (applyRoute (ctx\<lparr>executionCounter := executionCounter ctx + 1\<rparr>) rt params
           (Flags_PreserveHost (flags p))) tr = (pf, ctx1, tr1)"
  shows "(deprecatedShunted ctx1 \<longrightarrow>
            out = Returns (Some (PtrProxyError (proxyError0\<lparr>handled := True\<rparr>))) \<and>
            tr' = tr @ map EvFilterRequest pf @ map EvLIFODone (pendingLIFO ctx')) \<and>
         (\<not> deprecatedShunted ctx1 \<longrightarrow>
            (\<exists>mid. tr' = tr @ map EvFilterRequest pf @ mid @
                 (if out = Returns None then map EvFilterResponse (rev pf) else []) @
                 map EvLIFODone (pendingLIFO ctx') \<and>
               (BackendType rt \<noteq> LoopBackend \<or> shunted ctx1 \<or> Shunt rt \<longrightarrow>
                  list_all backendEvent mid)))"
proof -
  from applyFiltersToRequest_trace [OF f] have t1: "tr1 = tr @ map EvFilterRequest pf" by blast
  obtain lo lc lt where lp: "do p env (clone ctx1) tr1 = (lo, lc, lt)" by (metis prod.exhaust)
  from do_extends [OF lp] obtain n0 where n0: "lt = tr1 @ n0" ..
  obtain out1 c1 t1' where dr: "doRoute (do p env) p env
      (ctx\<lparr>executionCounter := executionCounter ctx + 1\<rparr>) tr = (out1, c1, t1')"
    by (metis prod.exhaust)
  from d g l dr have fin: "out = out1" "ctx' = c1" "tr' = t1' @ map EvLIFODone (pendingLIFO c1)"
    by (auto simp: do.simps [of p env ctx tr] deferredLIFO_def)
  have A: "deprecatedShunted ctx1 \<longrightarrow>
      out1 = Returns (Some (PtrProxyError (proxyError0\<lparr>handled := True\<rparr>))) \<and> t1' = tr1"
    using dr r f by (auto simp: doRoute_def)
  have B: "\<exists>mid. t1' = tr1 @ mid @ (if out1 = Returns None then map EvFilterResponse (rev pf) else []) \<and>
      (BackendType rt \<noteq> LoopBackend \<or> shunted ctx1 \<or> Shunt rt \<longrightarrow> list_all backendEvent mid)"
    if nd: "\<not> deprecatedShunted ctx1"
  proof (cases "shunted ctx1 \<or> Shunt rt \<or> BackendType rt = ShuntBackend")
    case True
    with dr r f nd show ?thesis
      by (auto simp: doRoute_def dest!: doFinish_trace intro!: exI [of _ "[]"])
  next
    case ns: False
    show ?thesis
    proof (cases "BackendType rt = LoopBackend")
      case True
      with dr r f nd ns lp n0 show ?thesis
        by (auto simp: doRoute_def split: Outcome.splits option.splits dest!: doFinish_trace)
    next
      case nl: False
      show ?thesis
      proof (cases "Flags_Debug (flags p)")
        case True
        with dr r f nd ns nl show ?thesis
          by (auto simp: doRoute_def split: prod.splits sum.splits
              dest!: doFinish_trace intro!: exI [of _ "[]"])
      next
        case False
        with dr r f nd ns nl show ?thesis
          by (auto simp: doRoute_def split: prod.splits sum.splits
              dest!: doFinish_trace doBackend_events)
      qed
    qed
  qed
  show ?thesis using A B fin t1 by auto
qed

lemma do_reachesBackend:
  assumes "reachesBackend p env ctx tr rt params pf ctx1 tr1"
  shows "do p env ctx tr =
    deferredLIFO
      (case doBackend p env rt ctx1 tr1 of
         (Inl e, ctx2, tr2) \<Rightarrow> (Returns (Some e), ctx2, tr2)
       | (Inr rsp, ctx2, tr2) \<Rightarrow>
           doFinish p env pf (setResponse ctx2 (Some rsp) (Flags_PreserveOriginal (flags p))) tr2)"
  using assms unfolding reachesBackend_def
  by (subst do.simps) (auto simp: doRoute_def)


lemma filter_isLIFODone_simps [simp]:
  "filter isLIFODone (map EvFilterRequest fs) = []"
  "filter isLIFODone (map EvFilterResponse fs) = []"
  "filter isLIFODone (map EvLIFODone ns) = map EvLIFODone ns"
  by (simp_all add: filter_map comp_def)

subsection \<open>Properties of the pipeline engine\<close>

text \<open>
  C6. Entered with an \<^verbatim>\<open>executionCounter\<close> above \<^verbatim>\<open>maxLoops\<close>, \<^verbatim>\<open>do\<close> returns the error
  \<^verbatim>\<open>max loopbacks reached\<close> at once: the context and the events are as they were, so no
  round trip is made. The error responder maps the error to 500 and, outside debug
  mode, writes that status.
\<close>

theorem do_max_loopbacks:
  assumes "executionCounter ctx > maxLoops p"
  shows "do p env ctx tr = (Returns (Some (MaxLoopbackError ''max loopbacks reached'')), ctx, tr) \<and>
         errorResponse_code p (MaxLoopbackError ''max loopbacks reached'') = 500 \<and>
         (\<not> Flags_Debug (flags p) \<longrightarrow>
            wCalls (responseWriter
              (errorResponse p env ctx (MaxLoopbackError ''max loopbacks reached''))) =
            wCalls (responseWriter ctx) @
              [WriteHeader 500, Write (http_StatusText env 500 @ [CHR 0x0A])])"
  using assms
  by (simp add: do.simps errMaxLoopbacksReached_def errorResponse_code_def
      errRouteLookupFailed_def errorResponse_def errorHandled_def sendError_def Let_def)

theorem do_max_loopbacks_witness:
  "do exampleProxy exampleEnv (exampleContext\<lparr>executionCounter := 10\<rparr>) [] =
     (Returns (Some (MaxLoopbackError ''max loopbacks reached'')),
      exampleContext\<lparr>executionCounter := 10\<rparr>, []) \<and>
   wCalls (responseWriter (errorResponse exampleProxy exampleEnv
       (exampleContext\<lparr>executionCounter := 10\<rparr>) (MaxLoopbackError ''max loopbacks reached''))) =
     [WriteHeader 500, Write (''status'' @ [CHR 0x0A])]"
  using do_max_loopbacks [of exampleProxy "exampleContext\<lparr>executionCounter := 10\<rparr>" exampleEnv "[]"]
  by (simp add: exampleProxy_simps Flags_zero exampleContext_def exampleEnv_def)

definition loopProxy :: Proxy where
  "loopProxy = WithParams (exampleParams\<lparr>pMaxLoopbacks := 1\<rparr>)"

definition loopRoute :: Route where
  "loopRoute = exampleRoute\<lparr>RouteId := ''loop'', BackendType := LoopBackend\<rparr>"

lemma loopProxy_simps:
  "maxLoops loopProxy = 1" "flags loopProxy = 0"
  "experimentalUpgrade loopProxy = False" "breakers loopProxy = None"
  "priorityRoutes loopProxy = []"
  "limiters_Check loopProxy = (\<lambda>r. (\<lparr>MaxHits = 0, TimeWindow = 0\<rparr>, 0))"
  by (simp_all add: loopProxy_def WithParams_def exampleParams_def)

text \<open>
  A route that loops back to itself, under a budget of one loopback: the third entry of
  \<^verbatim>\<open>do\<close> is stopped by the loop guard, its error is returned through the two callers,
  and no round trip is made.
\<close>

lemma loopback_budget:
  "do loopProxy exampleEnv (routedContext loopRoute) [] =
     (Returns (Some errMaxLoopbacksReached),
      (routedContext loopRoute)\<lparr>executionCounter := 1, route := Some loopRoute,
         outgoingHost := ''b.internal''\<rparr>, [])"
  by (simp add: do.simps eval_defs example_defs loopRoute_def loopProxy_simps Flags_zero)









text \<open>
  Loopback routes are outside the statement above. The context that \<^verbatim>\<open>clone\<close> makes for
  the nested call shares the state bag with its original, and each of the two frames
  runs its deferred function over it: a callback pushed by a request filter of a
  loopback route is called when the nested frame leaves and once more when the outer
  frame leaves.
\<close>

lemma loopback_lifo_frames:
  "fst (do exampleProxy lifoEnv loopContext []) = Returns None \<and>
   snd (snd (do exampleProxy lifoEnv loopContext [])) =
     [EvFilterRequest fPush1, EvFilterRequest fToInner, EvLIFODone 1,
      EvFilterResponse fToInner, EvFilterResponse fPush1, EvLIFODone 1]"
proof -
  have "fst (do exampleProxy lifoEnv loopContext []) = Returns None"
    by (simp add: do.simps eval_defs example_defs lifo_defs exampleProxy_simps Flags_zero)
  moreover have "snd (snd (do exampleProxy lifoEnv loopContext [])) =
     [EvFilterRequest fPush1, EvFilterRequest fToInner, EvLIFODone 1,
      EvFilterResponse fToInner, EvFilterResponse fPush1, EvLIFODone 1]"
    by (simp add: do.simps eval_defs example_defs lifo_defs exampleProxy_simps Flags_zero)
  ultimately show ?thesis by simp
qed

text \<open>
  C2, as amended. The request phase runs a prefix of the declared filters in declared
  order and stops early only behind a filter that leaves the context shunted, in either
  way: when the filters up to index \<open>k\<close> have all run and the context is shunted then,
  the phase over the whole chain runs exactly these. The response phase runs the
  filters it is given in reverse order. In \<^verbatim>\<open>do\<close>, when the request phase has signalled
  the deprecated shunt, the error \<^verbatim>\<open>handled\<close> is returned and no response filter runs;
  otherwise, when \<^verbatim>\<open>do\<close> returns nil, the response filters that run are the processed
  request filters in reverse order, and when it does not return nil none runs. The
  counterexample is a chain whose second filter signals the deprecated shunt: two
  request hooks run and no response hook.
\<close>

theorem filter_phases:
  "(applyFiltersToRequest p env f c0 t0 = (pf0, c1, t1) \<longrightarrow>
      (\<exists>n. n \<le> length f \<and> pf0 = take n f) \<and> t1 = t0 @ map EvFilterRequest pf0 \<and>
      (pf0 \<noteq> f \<longrightarrow> pf0 \<noteq> [] \<and> (deprecatedShunted c1 \<or> shunted c1))) \<and>
   (k < length f \<and>
    applyFiltersToRequest p env (take (Suc k) f) c0 t0 = (take (Suc k) f, c2, t2) \<and>
    (deprecatedShunted c2 \<or> shunted c2) \<longrightarrow>
      applyFiltersToRequest p env f c0 t0 = (take (Suc k) f, c2, t2)) \<and>
   (applyFiltersToResponse p env pf c3 t3 = (c4, t4) \<longrightarrow>
      t4 = t3 @ map EvFilterResponse (rev pf)) \<and>
   (do p env ctx tr = (out, ctx', tr') \<and> executionCounter ctx \<le> maxLoops p \<and>
    (wasExecuted ctx \<or> snd (limiters_Check p (request ctx)) \<le> 0) \<and>
    lookupRoute p (ctx\<lparr>executionCounter := executionCounter ctx + 1\<rparr>) = Some (rt, params) \<and>
    applyFiltersToRequest p env (Filters rt)
      (applyRoute (ctx\<lparr>executionCounter := executionCounter ctx + 1\<rparr>) rt params
         (Flags_PreserveHost (flags p))) tr = (pf, ctx1, tr1) \<longrightarrow>
      (deprecatedShunted ctx1 \<longrightarrow>
         out = Returns (Some (PtrProxyError (proxyError0\<lparr>handled := True\<rparr>))) \<and>
         tr' = tr @ map EvFilterRequest pf @ map EvLIFODone (pendingLIFO ctx')) \<and>
      (\<not> deprecatedShunted ctx1 \<longrightarrow>
         (\<exists>mid. tr' = tr @ map EvFilterRequest pf @ mid @
              (if out = Returns None then map EvFilterResponse (rev pf) else []) @
              map EvLIFODone (pendingLIFO ctx') \<and>
            (BackendType rt \<noteq> LoopBackend \<or> shunted ctx1 \<or> Shunt rt \<longrightarrow>
               list_all backendEvent mid))))"
proof -
  have a: "(\<exists>n. n \<le> length f \<and> pf0 = take n f) \<and> t1 = t0 @ map EvFilterRequest pf0 \<and>
      (pf0 \<noteq> f \<longrightarrow> pf0 \<noteq> [] \<and> (deprecatedShunted c1 \<or> shunted c1))"
    if r: "applyFiltersToRequest p env f c0 t0 = (pf0, c1, t1)"
  proof -
    from applyFiltersToRequest_trace [OF r] obtain n where n: "n \<le> length f" "pf0 = take n f"
      "t1 = t0 @ map EvFilterRequest pf0" "f \<noteq> [] \<longrightarrow> 0 < n"
      "n < length f \<longrightarrow> deprecatedShunted c1 \<or> shunted c1"
      by blast
    have "pf0 \<noteq> []" if "pf0 \<noteq> f" using that n by (cases "f = []") auto
    moreover have "deprecatedShunted c1 \<or> shunted c1" if "pf0 \<noteq> f"
    proof -
      from that n(1,2) have "n < length f" by (cases "n = length f") auto
      with n(5) show ?thesis by simp
    qed
    ultimately show ?thesis using n by blast
  qed
  show ?thesis
    using a applyFiltersToRequest_stop [of k f p env c0 t0 "take (Suc k) f" c2 t2]
      applyFiltersToResponse_trace [of p env pf c3 t3 c4 t4]
      do_route_shape [of p env ctx tr out ctx' tr' rt params pf ctx1 tr1]
    by blast
qed

theorem filter_phases_witness:
  "fst (applyFiltersToRequest exampleProxy shuntEnv (Filters shuntRoute)
          (applyRoute ((routedContext shuntRoute)\<lparr>executionCounter := 1\<rparr>) shuntRoute [] False)
          []) = [fPlain, fServe] \<and>
   fst (do exampleProxy shuntEnv (routedContext shuntRoute) []) = Returns None \<and>
   (\<exists>mid. snd (snd (do exampleProxy shuntEnv (routedContext shuntRoute) [])) =
      [EvFilterRequest fPlain, EvFilterRequest fServe] @ mid @
      [EvFilterResponse fServe, EvFilterResponse fPlain] \<and> list_all backendEvent mid)"
proof -
  let ?c = "routedContext shuntRoute"
  let ?c1 = "applyRoute (?c\<lparr>executionCounter := 1\<rparr>) shuntRoute [] False"
  define R2 where "R2 = applyFiltersToRequest exampleProxy shuntEnv [fPlain, fServe] ?c1 []"
  define c2 where "c2 = fst (snd R2)"
  define t2 where "t2 = snd (snd R2)"
  have r2: "fst R2 = [fPlain, fServe]" "shunted (fst (snd R2))"
    "\<not> deprecatedShunted (fst (snd R2))"
    by (simp_all add: R2_def eval_defs example_defs2 exampleProxy_simps Flags_zero)
  have tk: "take (Suc 1) (Filters shuntRoute) = [fPlain, fServe]"
    by (simp add: shuntRoute_def)
  have "R2 = ([fPlain, fServe], c2, t2)"
    using r2(1) by (simp add: c2_def t2_def prod_eq_iff)
  then have R2: "applyFiltersToRequest exampleProxy shuntEnv (take (Suc 1) (Filters shuntRoute))
      ?c1 [] = (take (Suc 1) (Filters shuntRoute), c2, t2)"
    by (simp only: tk R2_def)
  have k: "1 < length (Filters shuntRoute)" by (simp add: shuntRoute_def)
  have s2: "deprecatedShunted c2 \<or> shunted c2" "\<not> deprecatedShunted c2"
    using r2(2,3) by (simp_all add: c2_def)
  have "1 < length (Filters shuntRoute) \<and>
      applyFiltersToRequest exampleProxy shuntEnv (take (Suc 1) (Filters shuntRoute)) ?c1 [] =
        (take (Suc 1) (Filters shuntRoute), c2, t2) \<and>
      (deprecatedShunted c2 \<or> shunted c2)"
    using k R2 s2(1) by blast
  then have "applyFiltersToRequest exampleProxy shuntEnv (Filters shuntRoute) ?c1 [] =
      (take (Suc 1) (Filters shuntRoute), c2, t2)"
    by (rule filter_phases [THEN conjunct2, THEN conjunct1, THEN mp])
  then have R3: "applyFiltersToRequest exampleProxy shuntEnv (Filters shuntRoute) ?c1 [] =
      ([fPlain, fServe], c2, t2)"
    by (simp only: tk)
  have eq: "applyRoute (?c\<lparr>executionCounter := executionCounter ?c + 1\<rparr>) shuntRoute []
      (Flags_PreserveHost (flags exampleProxy)) = ?c1"
    by (simp add: exampleProxy_simps Flags_zero routedContext_def exampleContext_def)
  obtain out ctx' tr' where d: "do exampleProxy shuntEnv ?c [] = (out, ctx', tr')"
    by (metis prod.exhaust)
  have "fst (do exampleProxy shuntEnv ?c []) = Returns None"
    by (subst do.simps) (simp add: eval_defs example_defs2 exampleProxy_simps Flags_zero)
  then have o: "out = Returns None" by (simp only: d fst_conv)
  have "pendingLIFO (fst (snd (do exampleProxy shuntEnv ?c []))) = []"
    by (subst do.simps) (simp add: eval_defs example_defs2 exampleProxy_simps Flags_zero)
  then have p: "pendingLIFO ctx' = []" by (simp only: d fst_conv snd_conv)
  have l: "lookupRoute exampleProxy (?c\<lparr>executionCounter := executionCounter ?c + 1\<rparr>) =
      Some (shuntRoute, [])"
    by (simp add: lookupRoute_def exampleProxy_simps routedContext_def)
  have e: "executionCounter ?c \<le> maxLoops exampleProxy"
    "wasExecuted ?c \<or> snd (limiters_Check exampleProxy (request ?c)) \<le> 0"
    by (simp_all add: exampleProxy_simps routedContext_def exampleContext_def)
  have R4: "applyFiltersToRequest exampleProxy shuntEnv (Filters shuntRoute)
      (applyRoute (?c\<lparr>executionCounter := executionCounter ?c + 1\<rparr>) shuntRoute []
         (Flags_PreserveHost (flags exampleProxy))) [] = ([fPlain, fServe], c2, t2)"
    by (simp only: eq R3)
  have "do exampleProxy shuntEnv ?c [] = (out, ctx', tr') \<and>
      executionCounter ?c \<le> maxLoops exampleProxy \<and>
      (wasExecuted ?c \<or> snd (limiters_Check exampleProxy (request ?c)) \<le> 0) \<and>
      lookupRoute exampleProxy (?c\<lparr>executionCounter := executionCounter ?c + 1\<rparr>) =
        Some (shuntRoute, []) \<and>
      applyFiltersToRequest exampleProxy shuntEnv (Filters shuntRoute)
        (applyRoute (?c\<lparr>executionCounter := executionCounter ?c + 1\<rparr>) shuntRoute []
           (Flags_PreserveHost (flags exampleProxy))) [] = ([fPlain, fServe], c2, t2)"
    using d e l R4 by blast
  note C = filter_phases [THEN conjunct2, THEN conjunct2, THEN conjunct2, THEN mp, OF this]
  from C [THEN conjunct2, THEN mp, OF s2(2)] obtain mid where
    mid: "tr' = [] @ map EvFilterRequest [fPlain, fServe] @ mid @
        (if out = Returns None then map EvFilterResponse (rev [fPlain, fServe]) else []) @
        map EvLIFODone (pendingLIFO ctx')"
      "BackendType shuntRoute \<noteq> LoopBackend \<or> shunted c2 \<or> Shunt shuntRoute \<longrightarrow>
        list_all backendEvent mid"
    by blast
  have n: "BackendType shuntRoute \<noteq> LoopBackend"
    by (simp add: shuntRoute_def exampleRoute_def)
  from mid(2) n have m2: "list_all backendEvent mid" by blast
  from mid(1) have m1: "tr' = [EvFilterRequest fPlain, EvFilterRequest fServe] @ mid @
      [EvFilterResponse fServe, EvFilterResponse fPlain]"
    by (simp add: o p)
  have a: "fst (applyFiltersToRequest exampleProxy shuntEnv (Filters shuntRoute) ?c1 []) =
      [fPlain, fServe]"
    by (simp only: R3 fst_conv)
  have b: "fst (do exampleProxy shuntEnv ?c []) = Returns None"
    by (simp only: d o fst_conv)
  have c: "snd (snd (do exampleProxy shuntEnv ?c [])) = tr'"
    by (simp only: d snd_conv)
  show ?thesis using a b c m1 m2 by blast
qed

theorem filter_phases_counterexample:
  "fst (do exampleProxy shuntEnv (routedContext markServedRoute) []) =
     Returns (Some (PtrProxyError (proxyError0\<lparr>handled := True\<rparr>))) \<and>
   snd (snd (do exampleProxy shuntEnv (routedContext markServedRoute) [])) =
     [EvFilterRequest fPlain, EvFilterRequest fMarkServed]"
proof -
  have "fst (do exampleProxy shuntEnv (routedContext markServedRoute) []) =
      Returns (Some (PtrProxyError (proxyError0\<lparr>handled := True\<rparr>)))"
    by (subst do.simps) (simp add: eval_defs example_defs2 exampleProxy_simps Flags_zero)
  moreover have "snd (snd (do exampleProxy shuntEnv (routedContext markServedRoute) [])) =
      [EvFilterRequest fPlain, EvFilterRequest fMarkServed]"
    by (subst do.simps) (simp add: eval_defs example_defs2 exampleProxy_simps Flags_zero)
  ultimately show ?thesis by simp
qed

subsection \<open>Properties of the circuit-breaker gate and of the retry\<close>

lemma checkBreaker_denied:
  assumes "breakers p = Some registry" and "registry (breakerSettings ctx) = Some b"
    and "snd (b tr) = False"
  shows "checkBreaker p ctx tr =
     ((fst (b tr), False),
      ctx\<lparr>request := (request ctx)\<lparr>reqBody := discardBody (reqBody (request ctx))\<rparr>\<rparr>)"
proof -
  from assms(3) have bt: "b tr = (fst (b tr), False)" by (cases "b tr") simp
  have "discardBody (reqBody (request ctx)) = reqBody (request ctx)"
    if "reqBody (request ctx) = NilBody"
    using that by simp
  then have "ctx\<lparr>request := (request ctx)\<lparr>reqBody := discardBody (reqBody (request ctx))\<rparr>\<rparr> = ctx"
    if "reqBody (request ctx) = NilBody"
    using that by simp
  then show ?thesis
    using assms(1,2) bt
    by (auto simp: checkBreaker_def breakerSettings_def Let_def split: prod.splits)
qed

lemma errorResponse_circuit_breaker:
  assumes "\<not> Flags_Debug (flags p)"
  shows "map_of (wHeader (responseWriter (errorResponse p env c errCircuitBreakerOpen)))
           ''X-Circuit-Open'' = Some [''true'']"
    and "wCalls (responseWriter (errorResponse p env c errCircuitBreakerOpen)) =
           wCalls (responseWriter c) @ [WriteHeader 503, Write (http_StatusText env 503 @ [CHR 0x0A])]"
  using assms
  by (simp_all add: errorResponse_def errorHandled_def errCircuitBreakerOpen_def proxyError0_def
      errorResponse_code_def errRouteLookupFailed_def sendError_def Let_def addBranding_def
      Header_Set_def canonical_keys update_conv')

text \<open>
  C7. When the breaker of the route denies the call, the backend branch returns the
  sentinel \<^verbatim>\<open>errCircuitBreakerOpen\<close> with no event but the tracing entry, so no backend
  request is made, and a request body that is not nil has been read to its end. A run of
  \<^verbatim>\<open>do\<close> that reaches the branch returns this error. The error responder maps it to 503
  and, outside debug mode, writes that status with the header
  \<^verbatim>\<open>X-Circuit-Open: true\<close>.
\<close>

theorem circuit_breaker_open:
  assumes "breakers p = Some registry" and "registry (breakerSettings ctx1) = Some b"
    and "snd (b tr1) = False"
  shows "doBackend p env rt ctx1 tr1 =
           (Inl errCircuitBreakerOpen,
            ctx1\<lparr>request := (request ctx1)\<lparr>reqBody := discardBody (reqBody (request ctx1))\<rparr>\<rparr>,
            tr1 @ [EvCircuitBreakerOpen]) \<and>
         (reqBody (request ctx1) \<noteq> NilBody \<longrightarrow>
            discardBody (reqBody (request ctx1)) \<in> {NoBody, Reader []}) \<and>
         (reachesBackend p env ctx tr rt params pf ctx1 tr1 \<longrightarrow>
            do p env ctx tr =
              (Returns (Some errCircuitBreakerOpen),
               ctx1\<lparr>request := (request ctx1)\<lparr>reqBody := discardBody (reqBody (request ctx1))\<rparr>\<rparr>,
               tr @ map EvFilterRequest pf @ [EvCircuitBreakerOpen] @
                 map EvLIFODone (pendingLIFO ctx1))) \<and>
         errorResponse_code p errCircuitBreakerOpen = 503 \<and>
         (\<not> Flags_Debug (flags p) \<longrightarrow>
            map_of (wHeader (responseWriter (errorResponse p env c errCircuitBreakerOpen)))
              ''X-Circuit-Open'' = Some [''true''] \<and>
            wCalls (responseWriter (errorResponse p env c errCircuitBreakerOpen)) =
              wCalls (responseWriter c) @
                [WriteHeader 503, Write (http_StatusText env 503 @ [CHR 0x0A])])"
proof -
  let ?c = "ctx1\<lparr>request := (request ctx1)\<lparr>reqBody := discardBody (reqBody (request ctx1))\<rparr>\<rparr>"
  have b: "doBackend p env rt ctx1 tr1 = (Inl errCircuitBreakerOpen, ?c, tr1 @ [EvCircuitBreakerOpen])"
    by (simp add: doBackend_def checkBreaker_denied [OF assms])
  have d: "reqBody (request ctx1) \<noteq> NilBody \<longrightarrow>
      discardBody (reqBody (request ctx1)) \<in> {NoBody, Reader []}"
    by (cases "reqBody (request ctx1)") simp_all
  have e: "do p env ctx tr =
      (Returns (Some errCircuitBreakerOpen), ?c,
       tr @ map EvFilterRequest pf @ [EvCircuitBreakerOpen] @ map EvLIFODone (pendingLIFO ctx1))"
    if r: "reachesBackend p env ctx tr rt params pf ctx1 tr1"
  proof -
    from r have "applyFiltersToRequest p env (Filters rt)
        (applyRoute (ctx\<lparr>executionCounter := executionCounter ctx + 1\<rparr>) rt params
           (Flags_PreserveHost (flags p))) tr = (pf, ctx1, tr1)"
      by (simp add: reachesBackend_def)
    from applyFiltersToRequest_trace [OF this] have t: "tr1 = tr @ map EvFilterRequest pf"
      by blast
    have "do p env ctx tr =
        (Returns (Some errCircuitBreakerOpen), ?c,
         tr1 @ [EvCircuitBreakerOpen] @ map EvLIFODone (pendingLIFO ctx1))"
      by (simp add: do_reachesBackend [OF r] b deferredLIFO_def pendingLIFO_def)
    then show ?thesis unfolding t by simp
  qed
  have c: "errorResponse_code p errCircuitBreakerOpen = 503"
    by (simp add: errorResponse_code_def errCircuitBreakerOpen_def errRouteLookupFailed_def
        proxyError0_def)
  show ?thesis
    using b d e c errorResponse_circuit_breaker [of p env c] by blast
qed

theorem circuit_breaker_open_witness:
  "fst (doBackend denyingProxy exampleEnv exampleRoute
      (applyRoute (payloadContext\<lparr>executionCounter := 1\<rparr>) exampleRoute [] False) []) =
     Inl errCircuitBreakerOpen \<and>
   reqBody (request (fst (snd (doBackend denyingProxy exampleEnv exampleRoute
      (applyRoute (payloadContext\<lparr>executionCounter := 1\<rparr>) exampleRoute [] False) [])))) =
     Reader [] \<and>
   do denyingProxy exampleEnv payloadContext [] =
     (Returns (Some errCircuitBreakerOpen),
      (applyRoute (payloadContext\<lparr>executionCounter := 1\<rparr>) exampleRoute [] False)
        \<lparr>request := exampleRequest\<lparr>reqBody := Reader [], ContentLength := 7\<rparr>\<rparr>,
      [EvCircuitBreakerOpen]) \<and>
   errorResponse_code denyingProxy errCircuitBreakerOpen = 503 \<and>
   map_of (wHeader (responseWriter
     (errorResponse denyingProxy exampleEnv payloadContext errCircuitBreakerOpen)))
     ''X-Circuit-Open'' = Some [''true'']"
proof -
  let ?c = "applyRoute (payloadContext\<lparr>executionCounter := 1\<rparr>) exampleRoute [] False"
  have a: "breakers denyingProxy = Some (\<lambda>s. Some (\<lambda>tr. (False, False)))"
    "(\<lambda>s. Some (\<lambda>tr. (False, False))) (breakerSettings ?c) = Some (\<lambda>tr. (False, False))"
    "snd ((\<lambda>tr. (False, False)) ([] :: event list)) = False"
    by (simp_all add: denyingProxy_simps)
  have rb: "reachesBackend denyingProxy exampleEnv payloadContext [] exampleRoute [] [] ?c []"
    by (simp add: reachesBackend_def denyingProxy_simps Flags_zero payloadContext_def
        eval_defs example_defs)
  have d: "\<not> Flags_Debug (flags denyingProxy)" by (simp add: denyingProxy_simps Flags_zero)
  note T = circuit_breaker_open [where env = exampleEnv and rt = exampleRoute
      and ctx = payloadContext and tr = "[]" and params = "[]" and pf = "[]"
      and c = payloadContext, OF a]
  have body: "discardBody (reqBody (request ?c)) = Reader []"
    "request ?c = exampleRequest\<lparr>reqBody := Reader ''payload'', ContentLength := 7\<rparr>"
    "pendingLIFO ?c = []"
    by (simp_all add: applyRoute_def payloadContext_def routedContext_def exampleContext_def
        pendingLIFO_def emptyStateBag_def)
  from T rb d show ?thesis by (simp add: body)
qed

text \<open>
  C3. When the breaker allows the call and the first backend request fails with \<open>perr\<close>:
  if the code of \<open>perr\<close> is not 499, it is a dial failure, the route is load-balanced and
  the request body is nil or \<^verbatim>\<open>http.NoBody\<close>, exactly one retry is made, a failure of the
  retry is the error that is returned, and its response is the one that is used;
  in every other case no retry is made and \<open>perr\<close> is returned.
\<close>

theorem backend_retry:
  assumes cb: "checkBreaker p ctx1 tr1 = ((doneF, True), ctx0)"
    and first: "makeBackendRequest p env rt (withBackendTimeout ctx0) tr1 = (Inl perr, ctx2, tr2)"
    and second: "makeBackendRequest p env rt ctx2
        ((if doneF then tr2 @ [EvBreakerDone False] else tr2) @ [EvRetry (RouteId rt)]) =
        (r2, ctx3, tr4)"
    and res: "doBackend p env rt ctx1 tr1 = (res, ctx', tr')"
  shows "(code perr \<noteq> 499 \<and> dialingFailed perr \<and> BackendType rt = LBBackend \<and>
          (reqBody (request ctx2) = NilBody \<or> reqBody (request ctx2) = NoBody) \<longrightarrow>
            length (filter isRetry (drop (length tr1) tr')) = 1 \<and>
            (\<forall>perr2. r2 = Inl perr2 \<longrightarrow> res = Inl (PtrProxyError perr2)) \<and>
            (\<forall>rsp. r2 = Inr rsp \<longrightarrow> res = Inr rsp) \<and>
            (reachesBackend p env ctx tr rt params pf ctx1 tr1 \<longrightarrow>
               fst (do p env ctx tr) =
                 (case r2 of Inl perr2 \<Rightarrow> Returns (Some (PtrProxyError perr2))
                  | Inr rsp \<Rightarrow> Returns None))) \<and>
         (\<not> (code perr \<noteq> 499 \<and> dialingFailed perr \<and> BackendType rt = LBBackend \<and>
             (reqBody (request ctx2) = NilBody \<or> reqBody (request ctx2) = NoBody)) \<longrightarrow>
            filter isRetry (drop (length tr1) tr') = [] \<and>
            res = Inl (PtrProxyError perr) \<and>
            tr' = (if doneF then tr2 @ [EvBreakerDone False] else tr2) \<and>
            (reachesBackend p env ctx tr rt params pf ctx1 tr1 \<longrightarrow>
               fst (do p env ctx tr) = Returns (Some (PtrProxyError perr))))"
proof -
  let ?cond = "code perr \<noteq> 499 \<and> dialingFailed perr \<and> BackendType rt = LBBackend \<and>
          (reqBody (request ctx2) = NilBody \<or> reqBody (request ctx2) = NoBody)"
  have rc: "retryable rt ctx2 perr = ?cond" by (simp add: retryable_def Let_def)
  from makeBackendRequest_no_retry [OF first] obtain n1 where
    n1: "tr2 = tr1 @ n1" "filter isRetry n1 = []" by blast
  from makeBackendRequest_no_retry [OF second] obtain n2 where
    n2: "tr4 = ((if doneF then tr2 @ [EvBreakerDone False] else tr2) @ [EvRetry (RouteId rt)]) @ n2"
      "filter isRetry n2 = []" by blast
  have dl: "fst (do p env ctx tr) =
      (case res of Inl e \<Rightarrow> Returns (Some e) | Inr rsp \<Rightarrow> Returns None)"
    if "reachesBackend p env ctx tr rt params pf ctx1 tr1"
    by (simp add: do_reachesBackend [OF that] res fst_deferredLIFO doFinish_Returns
        setResponse_def split: sum.splits)
  show ?thesis
  proof (cases ?cond)
    case True
    with rc have rt: "retryable rt ctx2 perr" by simp
    from res cb first second rt have
      r: "res = (case r2 of Inl perr2 \<Rightarrow> Inl (PtrProxyError perr2) | Inr rsp \<Rightarrow> Inr rsp)"
      and t: "tr' = (case r2 of Inl perr2 \<Rightarrow> tr4
                 | Inr rsp \<Rightarrow> if doneF then tr4 @ [EvBreakerDone (StatusCode rsp < 500)] else tr4)"
      by (auto simp: doBackend_def Let_def split: sum.splits)
    have c: "length (filter isRetry (drop (length tr1) tr')) = 1"
      unfolding t using n1 n2 by (auto split: sum.splits)
    show ?thesis using True r c dl by (auto split: sum.splits)
  next
    case False
    with rc have rt: "\<not> retryable rt ctx2 perr" by simp
    from res cb first rt have
      r: "res = Inl (PtrProxyError perr)"
      and t: "tr' = (if doneF then tr2 @ [EvBreakerDone False] else tr2)"
      by (auto simp: doBackend_def Let_def)
    have c: "filter isRetry (drop (length tr1) tr') = []"
      unfolding t using n1 by auto
    show ?thesis using False r t c dl by auto
  qed
qed

theorem backend_retry_witness:
  "length (filter isRetry (snd (snd (doBackend failingProxy exampleEnv lbRoute
      (applyRoute ((routedContext lbRoute)\<lparr>executionCounter := 1\<rparr>) lbRoute [] False) [])))) = 1 \<and>
   (\<exists>perr2. fst (doBackend failingProxy exampleEnv lbRoute
      (applyRoute ((routedContext lbRoute)\<lparr>executionCounter := 1\<rparr>) lbRoute [] False) []) =
        Inl (PtrProxyError perr2) \<and> code perr2 = - 1 \<and> dialingFailed perr2) \<and>
   filter isRetry (snd (snd (doBackend failingProxy exampleEnv exampleRoute
      (applyRoute ((routedContext exampleRoute)\<lparr>executionCounter := 1\<rparr>) exampleRoute [] False)
      []))) = [] \<and>
   (\<exists>perr. fst (doBackend failingProxy exampleEnv exampleRoute
      (applyRoute ((routedContext exampleRoute)\<lparr>executionCounter := 1\<rparr>) exampleRoute [] False)
      []) = Inl (PtrProxyError perr) \<and> code perr = - 1 \<and> dialingFailed perr)"
proof -
  let ?c = "applyRoute ((routedContext lbRoute)\<lparr>executionCounter := 1\<rparr>) lbRoute [] False"
  let ?d = "applyRoute ((routedContext exampleRoute)\<lparr>executionCounter := 1\<rparr>) exampleRoute [] False"
  have cb: "checkBreaker failingProxy ?c [] = ((False, True), ?c)"
    "checkBreaker failingProxy ?d [] = ((False, True), ?d)"
    by (simp_all add: checkBreaker_def failingProxy_simps)
  define M1 where "M1 = makeBackendRequest failingProxy exampleEnv lbRoute (withBackendTimeout ?c) []"
  have m1: "\<exists>perr. fst M1 = Inl perr \<and> code perr = - 1 \<and> dialingFailed perr"
    "reqBody (request (fst (snd M1))) = NoBody"
    by (simp_all add: M1_def eval_defs example_defs failingProxy_simps Flags_zero)
  then obtain perr where perr: "fst M1 = Inl perr" "code perr = - 1" "dialingFailed perr"
    by blast
  define ctx2 where "ctx2 = fst (snd M1)"
  define tr2 where "tr2 = snd (snd M1)"
  have first: "makeBackendRequest failingProxy exampleEnv lbRoute (withBackendTimeout ?c) [] =
      (Inl perr, ctx2, tr2)"
    using perr(1) by (simp add: M1_def ctx2_def tr2_def prod_eq_iff)
  define M2 where "M2 = makeBackendRequest failingProxy exampleEnv lbRoute ctx2
      ((if False then tr2 @ [EvBreakerDone False] else tr2) @ [EvRetry (RouteId lbRoute)])"
  have m2: "\<exists>perr2. fst M2 = Inl perr2 \<and> code perr2 = - 1 \<and> dialingFailed perr2"
    unfolding M2_def ctx2_def tr2_def M1_def
    by (simp add: eval_defs example_defs failingProxy_simps Flags_zero)
  then obtain perr2 where perr2: "fst M2 = Inl perr2" "code perr2 = - 1" "dialingFailed perr2"
    by blast
  have second: "makeBackendRequest failingProxy exampleEnv lbRoute ctx2
      ((if False then tr2 @ [EvBreakerDone False] else tr2) @ [EvRetry (RouteId lbRoute)]) =
      (fst M2, fst (snd M2), snd (snd M2))"
    by (simp add: M2_def)
  obtain res ctx' tr' where res: "doBackend failingProxy exampleEnv lbRoute ?c [] = (res, ctx', tr')"
    by (metis prod.exhaust)
  have cond: "code perr \<noteq> 499 \<and> dialingFailed perr \<and> BackendType lbRoute = LBBackend \<and>
      (reqBody (request ctx2) = NilBody \<or> reqBody (request ctx2) = NoBody)"
    using perr m1(2) by (simp add: ctx2_def lbRoute_def)
  note A = backend_retry [OF cb(1) first second res, THEN conjunct1, THEN mp, OF cond]
  from A perr2 have a: "length (filter isRetry (drop (length ([]::event list)) tr')) = 1"
    "res = Inl (PtrProxyError perr2)"
    by blast+
  define N1 where "N1 = makeBackendRequest failingProxy exampleEnv exampleRoute (withBackendTimeout ?d) []"
  have n1: "\<exists>perr. fst N1 = Inl perr \<and> code perr = - 1 \<and> dialingFailed perr"
    by (simp add: N1_def eval_defs example_defs failingProxy_simps Flags_zero)
  then obtain qerr where qerr: "fst N1 = Inl qerr" "code qerr = - 1" "dialingFailed qerr"
    by blast
  have nfirst: "makeBackendRequest failingProxy exampleEnv exampleRoute (withBackendTimeout ?d) [] =
      (Inl qerr, fst (snd N1), snd (snd N1))"
    using qerr(1) by (simp add: N1_def prod_eq_iff)
  obtain r2 c3 t4 where nsecond: "makeBackendRequest failingProxy exampleEnv exampleRoute
      (fst (snd N1)) ((if False then snd (snd N1) @ [EvBreakerDone False] else snd (snd N1)) @
        [EvRetry (RouteId exampleRoute)]) = (r2, c3, t4)"
    by (metis prod.exhaust)
  obtain nres nctx ntr where nres:
    "doBackend failingProxy exampleEnv exampleRoute ?d [] = (nres, nctx, ntr)"
    by (metis prod.exhaust)
  have ncond: "\<not> (code qerr \<noteq> 499 \<and> dialingFailed qerr \<and> BackendType exampleRoute = LBBackend \<and>
      (reqBody (request (fst (snd N1))) = NilBody \<or> reqBody (request (fst (snd N1))) = NoBody))"
    by (simp add: exampleRoute_def)
  note B = backend_retry [OF cb(2) nfirst nsecond nres, THEN conjunct2, THEN mp, OF ncond]
  from B have b: "filter isRetry (drop (length ([]::event list)) ntr) = []"
    "nres = Inl (PtrProxyError qerr)"
    by blast+
  show ?thesis
    using a b perr2 qerr by (simp add: res nres)
qed

end
